theory Spec2Isabelle
  imports Main "HOL-Library.AList"
begin

section \<open>Python values\<close>

text \<open>
  Strings are byte strings (\<open>char list\<close>) holding the UTF-8 encoding of the Python
  text; the Chinese message literals of the source are written as their bytes.
  White space is the ASCII part of what \<open>str.isspace\<close> and the pattern \<open>\s\<close> accept
  (code points 9 to 13, 28 to 31 and 32); white space beyond ASCII is outside the model.

  A value decoded by \<open>json.loads\<close> is a \<open>json\<close>: \<open>None\<close> is \<open>JNull\<close>, a \<open>dict\<close> is an
  association list in insertion order with distinct keys, and a float is kept as the
  text of its literal.
\<close>

datatype json =
    JNull
  | JBool bool
  | JInt int
  | JFloat string
  | JString string
  | JArray "json list"
  | JObject "(string \<times> json) list"

type_synonym pydict = "(string \<times> json) list"

datatype py_exception =
    JSONDecodeError
  | KeyError string
  | TypeError
  | AttributeError
  | IndexError
  | Raised string  \<comment> \<open>an exception of a collaborator, with the text of \<open>str(e)\<close>\<close>

text \<open>\<open>d.get(k)\<close>, \<open>k in d\<close> and \<open>d[k] = v\<close> on a dict in insertion order.\<close>

definition dict_get :: "('k \<times> 'v) list \<Rightarrow> 'k \<Rightarrow> 'v option" where
  "dict_get d k = map_of d k"

definition dict_has :: "('k \<times> 'v) list \<Rightarrow> 'k \<Rightarrow> bool" where
  "dict_has d k = (k \<in> set (map fst d))"

definition dict_set :: "('k \<times> 'v) list \<Rightarrow> 'k \<Rightarrow> 'v \<Rightarrow> ('k \<times> 'v) list" where
  "dict_set d k v = AList.update k v d"

subsection \<open>String methods\<close>

definition is_space :: "char \<Rightarrow> bool" where
  "is_space c = (c \<in> set [CHR 0x09, CHR 0x0A, CHR 0x0B, CHR 0x0C, CHR 0x0D,
                            CHR 0x1C, CHR 0x1D, CHR 0x1E, CHR 0x1F, CHR '' ''])"

text \<open>\<open>s.strip()\<close> and \<open>s.strip(chars)\<close>: the latter removes, at both ends, every
  character that occurs in \<open>chars\<close> (a set of characters, not a prefix).\<close>

definition py_strip :: "string \<Rightarrow> string" where
  "py_strip s = rev (dropWhile is_space (rev (dropWhile is_space s)))"

definition py_strip_chars :: "string \<Rightarrow> string \<Rightarrow> string" where
  "py_strip_chars chars s =
     rev (dropWhile (\<lambda>c. c \<in> set chars) (rev (dropWhile (\<lambda>c. c \<in> set chars) s)))"

definition startswith :: "string \<Rightarrow> string \<Rightarrow> bool" where
  "startswith s p = (take (length p) s = p)"

definition endswith :: "string \<Rightarrow> string \<Rightarrow> bool" where
  "endswith s p = (length p \<le> length s \<and> drop (length s - length p) s = p)"

section \<open>The library function \<open>json.loads\<close>\<close>

text \<open>
  \<open>json.loads\<close> belongs to the Python standard library, not to the repository. It is
  modelled by a scanner that cuts the text into tokens and a pushdown automaton that
  reads them: the grammar of RFC 8259 with Python's additions \<open>NaN\<close>, \<open>Infinity\<close> and
  \<open>-Infinity\<close>, strict strings (no control character), and the last value winning for
  a repeated key. Every rejected text is a \<open>JSONDecodeError\<close>. Not modelled: the
  \<open>ValueError\<close> for an integer literal beyond the interpreter's digit limit and the
  \<open>RecursionError\<close> for very deep nesting.
\<close>

datatype token =
    TLBrace | TRBrace | TLBracket | TRBracket | TColon | TComma
  | TValue json

definition is_digit :: "char \<Rightarrow> bool" where
  "is_digit c = (c \<in> set ''0123456789'')"

definition digit_val :: "char \<Rightarrow> int" where
  "digit_val c = int (of_char c) - 48"

definition int_of_digits :: "string \<Rightarrow> int" where
  "int_of_digits ds = foldl (\<lambda>n c. 10 * n + digit_val c) 0 ds"

definition hex_val :: "char \<Rightarrow> nat option" where
  "hex_val c =
     (let n = of_char c in
      if is_digit c then Some (n - 48)
      else if c \<in> set ''abcdef'' then Some (n - 87)
      else if c \<in> set ''ABCDEF'' then Some (n - 55)
      else None)"

text \<open>Four hexadecimal digits of a \<open>\uXXXX\<close> escape.\<close>

fun hex4 :: "string \<Rightarrow> nat option" where
  "hex4 (a # b # c # d # _) =
     (case (hex_val a, hex_val b, hex_val c, hex_val d) of
        (Some x, Some y, Some z, Some w) \<Rightarrow> Some (((x * 16 + y) * 16 + z) * 16 + w)
      | _ \<Rightarrow> None)"
| "hex4 _ = None"

definition utf8 :: "nat \<Rightarrow> string" where
  "utf8 cp =
     (if cp < 0x80 then [char_of cp]
      else if cp < 0x800 then [char_of (0xC0 + cp div 64), char_of (0x80 + cp mod 64)]
      else if cp < 0x10000 then
        [char_of (0xE0 + cp div 4096), char_of (0x80 + cp div 64 mod 64),
         char_of (0x80 + cp mod 64)]
      else
        [char_of (0xF0 + cp div 262144), char_of (0x80 + cp div 4096 mod 64),
         char_of (0x80 + cp div 64 mod 64), char_of (0x80 + cp mod 64)])"

text \<open>The low half of a surrogate pair, when the text goes on with one.\<close>

definition low_surrogate :: "string \<Rightarrow> nat option" where
  "low_surrogate s =
     (if startswith s [CHR 0x5C, CHR ''u''] then
        (case hex4 (drop 2 s) of
           Some lo \<Rightarrow> if 0xDC00 \<le> lo \<and> lo \<le> 0xDFFF then Some lo else None
         | None \<Rightarrow> None)
      else None)"

text \<open>What a backslash introduces inside a string literal: the bytes it stands for and
  the text after the escape. A high surrogate followed by a low one is one code point.\<close>

definition unescape :: "string \<Rightarrow> (string \<times> string) option" where
  "unescape s =
     (case s of
        [] \<Rightarrow> None
      | e # r \<Rightarrow>
          if e = CHR 0x22 \<or> e = CHR 0x5C \<or> e = CHR ''/'' then Some ([e], r)
          else if e = CHR ''b'' then Some ([CHR 0x08], r)
          else if e = CHR ''f'' then Some ([CHR 0x0C], r)
          else if e = CHR ''n'' then Some ([CHR 0x0A], r)
          else if e = CHR ''r'' then Some ([CHR 0x0D], r)
          else if e = CHR ''t'' then Some ([CHR 0x09], r)
          else if e = CHR ''u'' then
            (case hex4 r of
               None \<Rightarrow> None
             | Some hi \<Rightarrow>
                 (case (if 0xD800 \<le> hi \<and> hi \<le> 0xDBFF then low_surrogate (drop 4 r)
                        else None) of
                    Some lo \<Rightarrow>
                      Some (utf8 (0x10000 + (hi - 0xD800) * 1024 + (lo - 0xDC00)), drop 10 r)
                  | None \<Rightarrow> Some (utf8 hi, drop 4 r)))
          else None)"

lemma unescape_shorter: "unescape s = Some (bs, r) \<Longrightarrow> length r < length s"
  unfolding unescape_def
  by (cases s) (auto split: if_splits option.splits simp: less_Suc_eq_le)

text \<open>The body of a string literal, after the opening quote: the decoded text (kept
  reversed in \<open>acc\<close>) and what follows the closing quote.\<close>

function lex_string :: "string \<Rightarrow> string \<Rightarrow> (string \<times> string) option" where
  "lex_string acc [] = None"
| "lex_string acc (c # cs) =
     (if c = CHR 0x22 then Some (rev acc, cs)
      else if c = CHR 0x5C then
        (case unescape cs of
           None \<Rightarrow> None
         | Some (bs, r) \<Rightarrow> lex_string (rev bs @ acc) r)
      else if (of_char c :: nat) < 32 then None
      else lex_string (c # acc) cs)"
  by pat_completeness auto
termination
  by (relation "measure (\<lambda>(acc, s). length s)")
     (auto dest: unescape_shorter)

lemma lex_string_shorter:
  "lex_string acc s = Some (str, r) \<Longrightarrow> length r < length s"
proof (induction acc s rule: lex_string.induct)
  case (1 acc)
  then show ?case by simp
next
  case (2 acc c cs)
  show ?case
  proof (cases "c = CHR 0x22")
    case True
    with "2.prems" show ?thesis by simp
  next
    case notq: False
    show ?thesis
    proof (cases "c = CHR 0x5C")
      case True
      from "2.prems" notq True obtain bs r0 where
        u: "unescape cs = Some (bs, r0)" and l: "lex_string (rev bs @ acc) r0 = Some (str, r)"
        by (auto split: option.splits)
      from "2.IH"(1)[OF notq True u refl l] unescape_shorter[OF u]
      show ?thesis by simp
    next
      case False
      with "2.prems" notq have c: "\<not> (of_char c :: nat) < 32"
        and l: "lex_string (c # acc) cs = Some (str, r)"
        by (auto split: if_splits)
      from "2.IH"(2)[OF notq False c l] show ?thesis by simp
    qed
  qed
qed

text \<open>A number, by the pattern
  \<open>(-?(?:0|[1-9][0-9]*))(\.[0-9]+)?([eE][-+]?[0-9]+)?\<close> of the library: an \<open>int\<close> when
  there is neither fraction nor exponent, a \<open>float\<close> otherwise.\<close>

definition lex_int_part :: "string \<Rightarrow> (string \<times> string) option" where
  "lex_int_part s =
     (case s of
        [] \<Rightarrow> None
      | c # r \<Rightarrow>
          if c = CHR ''0'' then Some ([c], r)
          else if is_digit c then Some (c # takeWhile is_digit r, dropWhile is_digit r)
          else None)"

definition lex_frac :: "string \<Rightarrow> string \<times> string" where
  "lex_frac s =
     (case s of
        c # d # r \<Rightarrow>
          if c = CHR ''.'' \<and> is_digit d
          then (c # d # takeWhile is_digit r, dropWhile is_digit r) else ([], s)
      | _ \<Rightarrow> ([], s))"

definition lex_exp :: "string \<Rightarrow> string \<times> string" where
  "lex_exp s =
     (case s of
        [] \<Rightarrow> ([], s)
      | e # r \<Rightarrow>
          if e = CHR ''e'' \<or> e = CHR ''E'' then
            (let sgn = (case r of [] \<Rightarrow> [] | g # _ \<Rightarrow>
                          if g = CHR ''-'' \<or> g = CHR ''+'' then [g] else []);
                 r' = drop (length sgn) r
             in if r' \<noteq> [] \<and> is_digit (hd r')
                then (e # sgn @ takeWhile is_digit r', dropWhile is_digit r')
                else ([], s))
          else ([], s))"

definition lex_number :: "string \<Rightarrow> (json \<times> string) option" where
  "lex_number s =
     (let neg = startswith s ''-'';
          s1 = (if neg then drop 1 s else s)
      in case lex_int_part s1 of
           None \<Rightarrow> None
         | Some (ds, r1) \<Rightarrow>
             (let (frac, r2) = lex_frac r1;
                  (ex, r3) = lex_exp r2
              in if frac = [] \<and> ex = []
                 then Some (JInt (if neg then - int_of_digits ds else int_of_digits ds), r3)
                 else Some (JFloat ((if neg then ''-'' else []) @ ds @ frac @ ex), r3)))"

text \<open>One token at the head of a text that does not start with white space.\<close>

definition literal :: "string \<Rightarrow> json \<Rightarrow> string \<Rightarrow> (token \<times> string) option" where
  "literal w v s = (if startswith s w then Some (TValue v, drop (length w) s) else None)"

definition next_token :: "string \<Rightarrow> (token \<times> string) option" where
  "next_token s =
     (case s of
        [] \<Rightarrow> None
      | c # r \<Rightarrow>
          if c = CHR ''{'' then Some (TLBrace, r)
          else if c = CHR ''}'' then Some (TRBrace, r)
          else if c = CHR ''['' then Some (TLBracket, r)
          else if c = CHR '']'' then Some (TRBracket, r)
          else if c = CHR '':'' then Some (TColon, r)
          else if c = CHR '','' then Some (TComma, r)
          else if c = CHR 0x22 then
            (case lex_string [] r of
               None \<Rightarrow> None
             | Some (str, r') \<Rightarrow> Some (TValue (JString str), r'))
          else if c = CHR ''n'' then literal ''null'' JNull s
          else if c = CHR ''t'' then literal ''true'' (JBool True) s
          else if c = CHR ''f'' then literal ''false'' (JBool False) s
          else
            (case lex_number s of
               Some (v, r') \<Rightarrow> Some (TValue v, r')
             | None \<Rightarrow>
                 if c = CHR ''N'' then literal ''NaN'' (JFloat ''NaN'') s
                 else if c = CHR ''I'' then literal ''Infinity'' (JFloat ''Infinity'') s
                 else if c = CHR ''-'' then literal ''-Infinity'' (JFloat ''-Infinity'') s
                 else None))"

definition json_ws :: "char \<Rightarrow> bool" where
  "json_ws c = (c \<in> set [CHR '' '', CHR 0x09, CHR 0x0A, CHR 0x0D])"

lemma lex_number_shorter: "lex_number s = Some (v, r) \<Longrightarrow> length r < length s"
proof -
  have int_part: "length r1 < length t" if "lex_int_part t = Some (ds, r1)" for t ds r1
    using that unfolding lex_int_part_def
    by (cases t) (auto split: if_splits simp: less_Suc_eq_le length_dropWhile_le)
  have frac: "length (snd (lex_frac t)) \<le> length t" for t
    unfolding lex_frac_def
    by (auto split: list.splits simp: le_SucI length_dropWhile_le)
  have ex: "length (snd (lex_exp t)) \<le> length t" for t
  proof (cases t)
    case Nil
    then show ?thesis by (simp add: lex_exp_def)
  next
    case (Cons e r0)
    have "length (dropWhile is_digit (drop n r0)) \<le> Suc (length r0)" for n
      using length_dropWhile_le[of is_digit "drop n r0"] by simp
    then show ?thesis
      using Cons by (simp add: lex_exp_def Let_def)
  qed
  assume a: "lex_number s = Some (v, r)"
  then obtain ds r1 where i: "lex_int_part (if startswith s ''-'' then drop 1 s else s) = Some (ds, r1)"
    unfolding lex_number_def Let_def by (auto split: option.splits)
  from a i have r: "r = snd (lex_exp (snd (lex_frac r1)))"
    unfolding lex_number_def Let_def by (auto split: prod.splits if_splits)
  have "length r1 < length s"
    using int_part[OF i] by (auto split: if_splits intro: less_le_trans)
  with frac[of r1] ex[of "snd (lex_frac r1)"] r show ?thesis by simp
qed

lemma next_token_shorter: "next_token s = Some (t, r) \<Longrightarrow> length r < length s"
  unfolding next_token_def literal_def
  by (cases s)
     (auto split: if_splits option.splits
           dest!: lex_string_shorter lex_number_shorter)

text \<open>The scanner: white space between tokens is skipped.\<close>

function tokenize :: "string \<Rightarrow> token list option" where
  "tokenize s =
     (case dropWhile json_ws s of
        [] \<Rightarrow> Some []
      | c # r \<Rightarrow>
          (case next_token (c # r) of
             None \<Rightarrow> None
           | Some (t, r') \<Rightarrow>
               (case tokenize r' of None \<Rightarrow> None | Some ts \<Rightarrow> Some (t # ts))))"
  by pat_completeness auto
termination
proof (relation "measure length", goal_cases)
  case 1
  show ?case by simp
next
  case (2 s c r x t r')
  have "length (dropWhile json_ws s) \<le> length s" by (rule length_dropWhile_le)
  with 2 next_token_shorter[of "c # r" t r'] show ?case by simp
qed

text \<open>The automaton over tokens. A frame of the stack is a container being read:
  the elements of an array so far (the latest first), or the pairs of an object so far
  and the key that waits for its value.\<close>

datatype frame = FArray "json list" | FObject pydict "string option"

datatype mode =
    WantValue          \<comment> \<open>a value must follow\<close>
  | WantValueOrClose   \<comment> \<open>right after an opening square bracket\<close>
  | WantKeyOrClose     \<comment> \<open>right after an opening brace\<close>
  | WantKey            \<comment> \<open>after a comma inside an object\<close>
  | WantColon
  | AfterValue         \<comment> \<open>inside a container, after one of its values\<close>
  | Finished json

text \<open>A value is complete: it is the document, an element or the value of the
  waiting key (\<open>dict(pairs)\<close> keeps the last value of a repeated key).\<close>

fun complete :: "json \<Rightarrow> frame list \<Rightarrow> (mode \<times> frame list) option" where
  "complete v [] = Some (Finished v, [])"
| "complete v (FArray xs # st) = Some (AfterValue, FArray (v # xs) # st)"
| "complete v (FObject ps (Some k) # st) = Some (AfterValue, FObject (dict_set ps k v) None # st)"
| "complete v (FObject ps None # st) = None"

fun step_token :: "mode \<Rightarrow> frame list \<Rightarrow> token \<Rightarrow> (mode \<times> frame list) option" where
  "step_token (Finished v) st t = None"
| "step_token WantColon st t = (if t = TColon then Some (WantValue, st) else None)"
| "step_token AfterValue st t =
     (case (t, st) of
        (TComma, FArray xs # st') \<Rightarrow> Some (WantValue, st)
      | (TComma, FObject ps None # st') \<Rightarrow> Some (WantKey, st)
      | (TRBracket, FArray xs # st') \<Rightarrow> complete (JArray (rev xs)) st'
      | (TRBrace, FObject ps None # st') \<Rightarrow> complete (JObject ps) st'
      | _ \<Rightarrow> None)"
| "step_token WantKey st t =
     (case (t, st) of
        (TValue (JString k), FObject ps None # st') \<Rightarrow> Some (WantColon, FObject ps (Some k) # st')
      | _ \<Rightarrow> None)"
| "step_token WantKeyOrClose st t =
     (case (t, st) of
        (TValue (JString k), FObject ps None # st') \<Rightarrow> Some (WantColon, FObject ps (Some k) # st')
      | (TRBrace, FObject ps None # st') \<Rightarrow> complete (JObject ps) st'
      | _ \<Rightarrow> None)"
| "step_token m st t =
     (case t of
        TValue v \<Rightarrow> complete v st
      | TLBracket \<Rightarrow> Some (WantValueOrClose, FArray [] # st)
      | TLBrace \<Rightarrow> Some (WantKeyOrClose, FObject [] None # st)
      | TRBracket \<Rightarrow>
          (case (m, st) of
             (WantValueOrClose, FArray xs # st') \<Rightarrow> complete (JArray (rev xs)) st'
           | _ \<Rightarrow> None)
      | _ \<Rightarrow> None)"

fun run_tokens :: "mode \<Rightarrow> frame list \<Rightarrow> token list \<Rightarrow> json option" where
  "run_tokens m st [] = (case m of Finished v \<Rightarrow> Some v | _ \<Rightarrow> None)"
| "run_tokens m st (t # ts) =
     (case step_token m st t of
        None \<Rightarrow> None
      | Some (m', st') \<Rightarrow> run_tokens m' st' ts)"

definition json_loads :: "string \<Rightarrow> py_exception + json" where
  "json_loads s =
     (case tokenize s of
        None \<Rightarrow> Inl JSONDecodeError
      | Some ts \<Rightarrow>
          (case run_tokens WantValue [] ts of
             None \<Rightarrow> Inl JSONDecodeError
           | Some v \<Rightarrow> Inr v))"

section \<open>The plan parser of \<open>client.py\<close>\<close>

text \<open>
  \<open>MCPClient.plan_tool_use\<close>, lines 163 to 176: the part that turns the text of the
  planning reply into a plan.
  \<^verbatim>\<open>
  content = plan_response.choices[0].message.content.strip()
  match = re.search(r"(?:json)?\s*([\s\S]+?)\s*", content)
  if match:
      json_text = match.group(1)
  else:
      json_text = content
  try:
      plan = json.loads(json_text)
      return plan if isinstance(plan, list) else []
  except Exception as e:
      print(f"...{content}")
      return []
  \<close>
\<close>

text \<open>The pattern \<open>\s*([\s\S]+?)\s*\<close> at the head of a text, giving group 1. The
  first \<open>\s*\<close> is greedy: it takes a white-space character when the rest can still
  match and gives it back otherwise. The group is lazy and nothing after it can fail,
  so it holds the one character that follows.\<close>

fun ws_then_group :: "string \<Rightarrow> string option" where
  "ws_then_group [] = None"
| "ws_then_group (c # cs) =
     (if is_space c then
        (case ws_then_group cs of Some g \<Rightarrow> Some g | None \<Rightarrow> Some [c])
      else Some [c])"

text \<open>The whole pattern at the head of a text: \<open>(?:json)?\<close> first tries to take the
  word, then to skip it.\<close>

definition re_match_at :: "string \<Rightarrow> string option" where
  "re_match_at s =
     (case (if startswith s ''json'' then ws_then_group (drop 4 s) else None) of
        Some g \<Rightarrow> Some g
      | None \<Rightarrow> ws_then_group s)"

text \<open>\<open>re.search\<close>: the first position, from the left, where the pattern matches.\<close>

fun re_search :: "string \<Rightarrow> string option" where
  "re_search [] = re_match_at []"
| "re_search (c # cs) =
     (case re_match_at (c # cs) of Some g \<Rightarrow> Some g | None \<Rightarrow> re_search cs)"

definition plan_failed_prefix :: string where
  "plan_failed_prefix =
     [CHR 0xE5, CHR 0xB7, CHR 0xA5, CHR 0xE5, CHR 0x85, CHR 0xB7, CHR 0xE8, CHR 0xB0,
      CHR 0x83, CHR 0xE7, CHR 0x94, CHR 0xA8, CHR 0xE9, CHR 0x93, CHR 0xBE, CHR 0xE8,
      CHR 0xA7, CHR 0x84, CHR 0xE5, CHR 0x88, CHR 0x92, CHR 0xE5, CHR 0xA4, CHR 0xB1,
      CHR 0xE8, CHR 0xB4, CHR 0xA5, CHR 0xEF, CHR 0xBC, CHR 0x8C, CHR 0xE5, CHR 0x8E,
      CHR 0x9F, CHR 0xE5, CHR 0xA7, CHR 0x8B, CHR 0xE8, CHR 0xBF, CHR 0x94, CHR 0xE5,
      CHR 0x9B, CHR 0x9E, CHR 0xE4, CHR 0xB8, CHR 0xBA, CHR 0xEF, CHR 0xBC, CHR 0x9A]"

text \<open>The result is the plan and the lines printed. \<open>except Exception\<close> catches
  whatever \<open>json.loads\<close> raises, so this part of the function raises nothing.\<close>

definition plan_tool_use_parse :: "string \<Rightarrow> json list \<times> string list" where
  "plan_tool_use_parse reply =
     (let content = py_strip reply;
          json_text = (case re_search content of Some g \<Rightarrow> g | None \<Rightarrow> content)
      in case json_loads json_text of
           Inr plan \<Rightarrow> (case plan of JArray steps \<Rightarrow> (steps, []) | _ \<Rightarrow> ([], []))
         | Inl e \<Rightarrow> ([], [plan_failed_prefix @ content]))"

text \<open>
  The whole of \<open>plan_tool_use\<close>. Before the model is asked, line 138 prints the tools:
  \<^verbatim>\<open>print(json.dumps(tools, esure_ascii=False, indent=2))\<close>
  A keyword that \<open>json.dumps\<close> does not know goes to the encoder's constructor, which
  raises \<open>TypeError\<close> for it. The argument \<open>reply\<close> is what the model would answer to the
  planning prompt.
\<close>

definition json_dumps_keywords :: "string list" where
  "json_dumps_keywords =
     [''skipkeys'', ''ensure_ascii'', ''check_circular'', ''allow_nan'', ''cls'', ''indent'',
      ''separators'', ''default'', ''sort_keys'']"

definition plan_tool_use :: "string \<Rightarrow> py_exception + json list \<times> string list" where
  "plan_tool_use reply =
     (if list_all (\<lambda>k. k \<in> set json_dumps_keywords) [''esure_ascii'', ''indent'']
      then Inr (plan_tool_use_parse reply) else Inl TypeError)"

subsection \<open>What the pattern extracts\<close>

lemma ws_then_group_length: "ws_then_group s = Some g \<Longrightarrow> length g = 1"
  by (induction s) (auto split: if_splits option.splits)

lemma re_search_length: "re_search s = Some g \<Longrightarrow> length g = 1"
  by (induction s)
     (auto simp: re_match_at_def split: if_splits option.splits dest: ws_then_group_length)

lemma json_text_short:
  "length (case re_search content of Some g \<Rightarrow> g | None \<Rightarrow> content) \<le> 1"
proof (cases "re_search content")
  case None
  then have "content = []"
    by (cases content) (auto simp: re_match_at_def split: if_splits option.splits)
  with None show ?thesis by simp
next
  case (Some g)
  then show ?thesis by (simp add: re_search_length)
qed

text \<open>A text of at most one character decodes to a one-digit integer or not at all.\<close>

lemma json_loads_one_char:
  assumes "length s \<le> 1" and "json_loads s = Inr v"
  shows "\<exists>n. v = JInt n"
proof (cases s)
  case Nil
  with assms(2) show ?thesis by (simp add: json_loads_def)
next
  case (Cons c r)
  with assms(1) have s: "s = [c]" by simp
  show ?thesis
  proof (cases "json_ws c")
    case True
    with assms(2) s show ?thesis by (simp add: json_loads_def)
  next
    case False
    have num: "\<exists>n. w = JInt n" if "lex_number [d] = Some (w, r')" for w r' d
      using that
      by (auto simp: lex_number_def lex_int_part_def lex_frac_def lex_exp_def
            startswith_def Let_def split: if_splits option.splits)
    from assms(2) s False obtain t r' where
      nt: "next_token [c] = Some (t, r')" and tk: "tokenize r' \<noteq> None"
      by (auto simp: json_loads_def split: option.splits)
    from next_token_shorter[OF nt] have r': "r' = []" by simp
    from assms(2) s False nt r' have run: "run_tokens WantValue [] [t] = Some v"
      by (auto simp: json_loads_def split: option.splits)
    from nt have "(\<exists>w. t = TValue w \<and> (\<exists>n. w = JInt n)) \<or> (\<forall>w. t \<noteq> TValue w)"
      unfolding next_token_def literal_def startswith_def
      by (auto split: if_splits option.splits dest!: num)
    with run show ?thesis
      by (cases t) (auto split: option.splits)
  qed
qed

text \<open>As the source stands, the misspelt keyword ends every call of \<open>plan_tool_use\<close>.\<close>

lemma plan_tool_use_raises: "plan_tool_use reply = Inl TypeError"
  by (simp add: plan_tool_use_def json_dumps_keywords_def)

lemma plan_tool_use_parse_empty: "fst (plan_tool_use_parse reply) = []"
proof -
  let ?t = "case re_search (py_strip reply) of Some g \<Rightarrow> g | None \<Rightarrow> py_strip reply"
  show ?thesis
  proof (cases "json_loads ?t")
    case (Inl e)
    then show ?thesis by (simp add: plan_tool_use_parse_def Let_def)
  next
    case (Inr v)
    from json_loads_one_char[OF json_text_short Inr] obtain n where "v = JInt n" ..
    with Inr show ?thesis by (simp add: plan_tool_use_parse_def Let_def)
  qed
qed

section \<open>The executor of \<open>client.py\<close>\<close>

text \<open>
  \<open>MCPClient.process_query\<close>, lines 70 to 96: the loop that runs the steps of a plan.
  \<^verbatim>\<open>
  tool_outputs = {}
  for step in tool_plan:
      tool_name = step["name"]
      tool_args = step["arguments"]
      for key, val in tool_args.items():
          if isinstance(val, str) and val.startswith("{{") and val.endswith("}}"):
              ref_key = val.strip("{} ")
              resolved_val = tool_outputs.get(ref_key, None)
              tool_args[key] = resolved_val
      if tool_name == "analyze_sentiment" and "filename" not in tool_args:
          tool_args["filename"] = txt_filename
      if tool_name == "send_email_with_attachment" and "attachment_path" not in tool_args:
          tool_args["attachment_path"] = txt_path
      result = await self.session.call_tool(tool_name, tool_args)
      tool_outputs[tool_name] = result.content[0].text
      messages.append({"role": "tool", "tool_call_id": tool_name,
                       "content": result.content[0].text})
  \<close>
  A plan is whatever list \<open>json.loads\<close> gave, so a step is any \<open>json\<close>.
\<close>

record message =
  role :: string
  tool_call_id :: "json option"
  content :: string

text \<open>\<open>v[k]\<close> for a string \<open>k\<close>: only a dict that has the key answers.\<close>

definition subscript :: "json \<Rightarrow> string \<Rightarrow> py_exception + json" where
  "subscript v k =
     (case v of
        JObject d \<Rightarrow> (case dict_get d k of Some x \<Rightarrow> Inr x | None \<Rightarrow> Inl (KeyError k))
      | _ \<Rightarrow> Inl TypeError)"

text \<open>The test of line 84.\<close>

definition is_placeholder :: "json \<Rightarrow> bool" where
  "is_placeholder v =
     (case v of JString s \<Rightarrow> startswith s ''{{'' \<and> endswith s ''}}'' | _ \<Rightarrow> False)"

text \<open>Lines 84 to 87 for one value: \<open>tool_outputs.get(ref_key, None)\<close>.\<close>

definition resolve_value :: "(json \<times> string) list \<Rightarrow> json \<Rightarrow> json" where
  "resolve_value tool_outputs v =
     (case v of
        JString s \<Rightarrow>
          if startswith s ''{{'' \<and> endswith s ''}}'' then
            (case dict_get tool_outputs (JString (py_strip_chars ''{} '' s)) of
               Some text \<Rightarrow> JString text
             | None \<Rightarrow> JNull)
          else v
      | _ \<Rightarrow> v)"

text \<open>The loop of lines 83 to 87 over the items of the dict. The keys of a dict are
  distinct, so \<open>tool_args[key] = resolved_val\<close> replaces the value of the item at hand
  and leaves the order of the items as it is.\<close>

fun resolve_placeholders :: "(json \<times> string) list \<Rightarrow> pydict \<Rightarrow> pydict" where
  "resolve_placeholders tool_outputs [] = []"
| "resolve_placeholders tool_outputs ((key, val) # items) =
     (key, resolve_value tool_outputs val) # resolve_placeholders tool_outputs items"

text \<open>Lines 89 to 92.\<close>

definition inject_defaults :: "json \<Rightarrow> string \<Rightarrow> string \<Rightarrow> pydict \<Rightarrow> pydict" where
  "inject_defaults tool_name txt_filename txt_path tool_args =
     (let args1 =
            (if tool_name = JString ''analyze_sentiment'' \<and> \<not> dict_has tool_args ''filename''
             then dict_set tool_args ''filename'' (JString txt_filename) else tool_args)
      in if tool_name = JString ''send_email_with_attachment''
            \<and> \<not> dict_has args1 ''attachment_path''
         then dict_set args1 ''attachment_path'' (JString txt_path) else args1)"

text \<open>
  The tool host behind \<open>self.session.call_tool\<close> is a collaborator: given the
  invocations made before (it may keep state), a tool name and the arguments, it
  raises (\<open>Inl\<close>, with the text of the exception) or returns a result, of which the
  model keeps the texts of the content items (a content item that is not a text is
  outside the model). An error that the host reports inside its result is such a text;
  the code never looks at anything else of the result.
\<close>

type_synonym invocation = "json \<times> pydict"

type_synonym tool_host = "invocation list \<Rightarrow> json \<Rightarrow> pydict \<Rightarrow> string + string list"

record exec_state =
  tool_outputs :: "(json \<times> string) list"
  messages :: "message list"
  calls :: "invocation list"  \<comment> \<open>the invocations made on the session, in order\<close>

text \<open>A list or a dict is no key of a dict. A key that is not a string is never looked
  up (a reference is a string), so that Python takes 1, 1.0 and \<open>True\<close> for one key does
  not show.\<close>

definition unhashable :: "json \<Rightarrow> bool" where
  "unhashable v = (case v of JArray _ \<Rightarrow> True | JObject _ \<Rightarrow> True | _ \<Rightarrow> False)"

text \<open>One round of the loop. Nothing in it catches an exception: the result is the
  exception that leaves \<open>process_query\<close>, if any, and the state reached.\<close>

definition process_query_step ::
  "tool_host \<Rightarrow> string \<Rightarrow> string \<Rightarrow> json \<Rightarrow> exec_state \<Rightarrow> py_exception option \<times> exec_state"
where
  "process_query_step host txt_filename txt_path step st =
     (case subscript step ''name'' of
        Inl e \<Rightarrow> (Some e, st)
      | Inr tool_name \<Rightarrow>
     (case subscript step ''arguments'' of
        Inl e \<Rightarrow> (Some e, st)
      | Inr a \<Rightarrow>
     (case a of
        JObject tool_args0 \<Rightarrow>
          (let tool_args = inject_defaults tool_name txt_filename txt_path
                             (resolve_placeholders (tool_outputs st) tool_args0);
               st1 = st\<lparr>calls := calls st @ [(tool_name, tool_args)]\<rparr>
           in case host (calls st) tool_name tool_args of
                Inl msg \<Rightarrow> (Some (Raised msg), st1)
              | Inr texts \<Rightarrow>
                  (case texts of
                     [] \<Rightarrow> (Some IndexError, st1)
                   | text # _ \<Rightarrow>
                       if unhashable tool_name then (Some TypeError, st1)
                       else
                         (None,
                          st1\<lparr>tool_outputs := dict_set (tool_outputs st) tool_name text,
                              messages := messages st @
                                [\<lparr>role = ''tool'', tool_call_id = Some tool_name,
                                  content = text\<rparr>]\<rparr>)))
      | _ \<Rightarrow> (Some AttributeError, st))))"

fun process_query_steps ::
  "tool_host \<Rightarrow> string \<Rightarrow> string \<Rightarrow> json list \<Rightarrow> exec_state \<Rightarrow> py_exception option \<times> exec_state"
where
  "process_query_steps host txt_filename txt_path [] st = (None, st)"
| "process_query_steps host txt_filename txt_path (step # steps) st =
     (case process_query_step host txt_filename txt_path step st of
        (Some e, st') \<Rightarrow> (Some e, st')
      | (None, st') \<Rightarrow> process_query_steps host txt_filename txt_path steps st')"

text \<open>The state at line 77: the transcript holds the user's query.\<close>

definition initial_state :: "string \<Rightarrow> exec_state" where
  "initial_state new_query =
     \<lparr>tool_outputs = [],
      messages = [\<lparr>role = ''user'', tool_call_id = None, content = new_query\<rparr>],
      calls = []\<rparr>"

text \<open>A host for the examples: its i-th invocation gets the i-th canned reply.\<close>

definition replay_host :: "(string + string list) list \<Rightarrow> tool_host" where
  "replay_host replies hist tool_name tool_args =
     (if length hist < length replies then replies ! length hist
      else Inl ''no reply left'')"

text \<open>A well-formed step of a plan, as \<open>json.loads\<close> gives it.\<close>

definition plan_step :: "string \<Rightarrow> pydict \<Rightarrow> json" where
  "plan_step n a = JObject [(''name'', JString n), (''arguments'', JObject a)]"


section \<open>The iterative client of \<open>fastmcp_sse_client.py\<close>\<close>

text \<open>
  \<open>ChatSession.process_llm_response\<close>, lines 39 to 63.
  \<^verbatim>\<open>
  try:
      if llm_response.startswith("```json"):
          llm_response = llm_response.strip("```json").strip("```").strip()
      tool_call = json.loads(llm_response)
      if "tool" in tool_call and "arguments" in tool_call:
          tools = await self.mcp_session.list_tools()
          if any(tool.name == tool_call["tool"] for tool in tools):
              try:
                  result = await self.mcp_session.call_tool(tool_call["tool"],
                                                            tool_call["arguments"])
                  return f"...{tool_call['tool']}...{result.content[0].text}"
              except Exception as e:
                  error_msg = f"...{str(e)}"
                  logging.error(error_msg)
                  return error_msg
          return f"...{tool_call['tool']}"
      return llm_response
  except json.JSONDecodeError:
      return llm_response
  \<close>
  The session is a collaborator: \<open>list_tools\<close> gives the names of the tools or raises,
  \<open>call_tool\<close> answers as the host of the executor does (it sees the invocations made
  before). What \<open>str()\<close> makes of a decoded value that is not a string is left to the
  parameter \<open>fmt\<close>. The line written by \<open>logging.error\<close> is not modelled.
\<close>

type_synonym tool_call = "json \<times> json"

record mcp_session =
  list_tools :: "string + string list"
  call_tool :: "tool_call list \<Rightarrow> json \<Rightarrow> json \<Rightarrow> string + string list"

definition py_str :: "(json \<Rightarrow> string) \<Rightarrow> json \<Rightarrow> string" where
  "py_str fmt v = (case v of JString s \<Rightarrow> s | _ \<Rightarrow> fmt v)"

text \<open>\<open>p in s\<close> for two strings: \<open>p\<close> occurs in \<open>s\<close>.\<close>

fun is_substring :: "string \<Rightarrow> string \<Rightarrow> bool" where
  "is_substring p [] = (p = [])"
| "is_substring p (c # cs) = (startswith (c # cs) p \<or> is_substring p cs)"

definition called_prefix :: string where
  "called_prefix =
     [CHR 0xE8, CHR 0xB0, CHR 0x83, CHR 0xE7, CHR 0x94, CHR 0xA8, CHR 0xE4, CHR 0xBA, CHR 0x86]"

definition tool_result_infix :: string where
  "tool_result_infix =
     [CHR 0xE5, CHR 0xB7, CHR 0xA5, CHR 0xE5, CHR 0x85, CHR 0xB7, CHR 0xEF, CHR 0xBC, CHR 0x8C,
      CHR 0xE7, CHR 0xBB, CHR 0x93, CHR 0xE6, CHR 0x9E, CHR 0x9C, CHR 0xE4, CHR 0xB8, CHR 0xBA]"

definition call_error_prefix :: string where
  "call_error_prefix =
     [CHR 0xE8, CHR 0xB0, CHR 0x83, CHR 0xE7, CHR 0x94, CHR 0xA8, CHR 0xE5, CHR 0xB7, CHR 0xA5,
      CHR 0xE5, CHR 0x85, CHR 0xB7, CHR 0xE6, CHR 0x97, CHR 0xB6, CHR 0xE5, CHR 0x87, CHR 0xBA,
      CHR 0xE9, CHR 0x94, CHR 0x99, CHR 0xEF, CHR 0xBC, CHR 0x9A]"

definition no_tool_prefix :: string where
  "no_tool_prefix =
     [CHR 0xE6, CHR 0xB2, CHR 0xA1, CHR 0xE6, CHR 0x9C, CHR 0x89, CHR 0xE8, CHR 0xAF, CHR 0xA5,
      CHR 0xE5, CHR 0xB7, CHR 0xA5, CHR 0xE5, CHR 0x85, CHR 0xB7, CHR 0xEF, CHR 0xBC, CHR 0x9A]"

text \<open>Lines 45 and 46: the variable \<open>llm_response\<close> is assigned anew.\<close>

definition strip_fence :: "string \<Rightarrow> string" where
  "strip_fence llm_response =
     (if startswith llm_response ''```json''
      then py_strip (py_strip_chars ''```'' (py_strip_chars ''```json'' llm_response))
      else llm_response)"

text \<open>Lines 50 to 59, for a dict that has both keys: the inner \<open>try\<close> turns whatever
  the invocation raises, and the \<open>IndexError\<close> of an empty content, into a message.\<close>

definition call_listed_tool ::
  "(json \<Rightarrow> string) \<Rightarrow> mcp_session \<Rightarrow> tool_call list \<Rightarrow> json \<Rightarrow> json
     \<Rightarrow> (py_exception + string) \<times> tool_call list"
where
  "call_listed_tool fmt session log tool arguments =
     (case list_tools session of
        Inl m \<Rightarrow> (Inl (Raised m), log)
      | Inr tools \<Rightarrow>
          if tool \<in> set (map JString tools) then
            (case call_tool session log tool arguments of
               Inl m \<Rightarrow> (Inr (call_error_prefix @ m), log @ [(tool, arguments)])
             | Inr texts \<Rightarrow>
                 (case texts of
                    [] \<Rightarrow> (Inr (call_error_prefix @ ''list index out of range''),
                           log @ [(tool, arguments)])
                  | t # _ \<Rightarrow>
                      (Inr (called_prefix @ py_str fmt tool @ tool_result_infix @ t),
                       log @ [(tool, arguments)])))
          else (Inr (no_tool_prefix @ py_str fmt tool), log))"

text \<open>Lines 50 to 59 for a string or a list that passes the test of line 48:
  \<open>tool_call["tool"]\<close> is a \<open>TypeError\<close>, in \<open>any\<close> or in the last \<open>return\<close>.\<close>

definition index_by_name ::
  "mcp_session \<Rightarrow> tool_call list \<Rightarrow> (py_exception + string) \<times> tool_call list"
where
  "index_by_name session log =
     (case list_tools session of
        Inl m \<Rightarrow> (Inl (Raised m), log)
      | Inr tools \<Rightarrow> (Inl TypeError, log))"

text \<open>The result is what the method returns or raises, and the invocations made so
  far. The operator \<open>in\<close> of line 48 tests the keys of a dict, the elements of a list
  and the substrings of a string; any other decoded value is a \<open>TypeError\<close>, which
  \<open>except json.JSONDecodeError\<close> does not catch.\<close>

definition process_llm_response ::
  "(json \<Rightarrow> string) \<Rightarrow> mcp_session \<Rightarrow> tool_call list \<Rightarrow> string
     \<Rightarrow> (py_exception + string) \<times> tool_call list"
where
  "process_llm_response fmt session log llm_response0 =
     (let llm_response = strip_fence llm_response0 in
      case json_loads llm_response of
        Inl e \<Rightarrow> (Inr llm_response, log)
      | Inr tool_call \<Rightarrow>
          (case tool_call of
             JObject d \<Rightarrow>
               (case dict_get d ''tool'' of
                  None \<Rightarrow> (Inr llm_response, log)
                | Some tool \<Rightarrow>
                    (case dict_get d ''arguments'' of
                       None \<Rightarrow> (Inr llm_response, log)
                     | Some arguments \<Rightarrow> call_listed_tool fmt session log tool arguments))
           | JString s \<Rightarrow>
               if is_substring ''tool'' s \<and> is_substring ''arguments'' s
               then index_by_name session log else (Inr llm_response, log)
           | JArray xs \<Rightarrow>
               if JString ''tool'' \<in> set xs \<and> JString ''arguments'' \<in> set xs
               then index_by_name session log else (Inr llm_response, log)
           | _ \<Rightarrow> (Inl TypeError, log)))"









section \<open>Facts about the executor\<close>

lemma resolve_placeholders_map:
  "resolve_placeholders outs a = map (\<lambda>(k, v). (k, resolve_value outs v)) a"
  by (induction a) auto

lemma resolve_value_id: "\<not> is_placeholder v \<Longrightarrow> resolve_value outs v = v"
  by (cases v) (auto simp: resolve_value_def is_placeholder_def)

lemma dict_get_resolve:
  "dict_get (resolve_placeholders outs a) k = map_option (resolve_value outs) (dict_get a k)"
  by (induction a) (auto simp: dict_get_def)

lemma dict_has_resolve: "dict_has (resolve_placeholders outs a) k = dict_has a k"
  by (induction a) (auto simp: dict_has_def)

lemma dict_get_set_same: "dict_get (dict_set d k v) k = Some v"
  by (simp add: dict_get_def dict_set_def update_conv')

lemma dict_get_set_other: "k' \<noteq> k \<Longrightarrow> dict_get (dict_set d k v) k' = dict_get d k'"
  by (simp add: dict_get_def dict_set_def update_conv')

lemma dict_set_absent: "\<not> dict_has d k \<Longrightarrow> dict_set d k v = d @ [(k, v)]"
  by (induction d) (auto simp: dict_has_def dict_set_def)

lemma dict_has_get: "dict_has d k = (dict_get d k \<noteq> None)"
  by (simp add: dict_has_def dict_get_def map_of_eq_None_iff)

text \<open>A step that is a dict with a name and a dict of arguments reaches the host.\<close>

lemma process_query_step_wellformed:
  assumes "subscript step ''name'' = Inr n" and "subscript step ''arguments'' = Inr (JObject a)"
  shows "process_query_step host f p step st =
     (let args = inject_defaults n f p (resolve_placeholders (tool_outputs st) a);
          st1 = st\<lparr>calls := calls st @ [(n, args)]\<rparr>
      in case host (calls st) n args of
           Inl msg \<Rightarrow> (Some (Raised msg), st1)
         | Inr [] \<Rightarrow> (Some IndexError, st1)
         | Inr (text # ts) \<Rightarrow>
             if unhashable n then (Some TypeError, st1)
             else (None, st1\<lparr>tool_outputs := dict_set (tool_outputs st) n text,
                      messages := messages st @
                        [\<lparr>role = ''tool'', tool_call_id = Some n, content = text\<rparr>]\<rparr>))"
  using assms
  by (simp add: process_query_step_def Let_def split: sum.splits list.splits)

lemma subscript_plan_step [simp]:
  "subscript (plan_step n a) ''name'' = Inr (JString n)"
  "subscript (plan_step n a) ''arguments'' = Inr (JObject a)"
  by (simp_all add: plan_step_def subscript_def dict_get_def)

lemma process_query_step_calls:
  "process_query_step host f p step st = (r, st') \<Longrightarrow>
     calls st' = calls st \<or>
     (\<exists>n a. subscript step ''name'' = Inr n \<and> subscript step ''arguments'' = Inr (JObject a)
        \<and> calls st' = calls st @
             [(n, inject_defaults n f p (resolve_placeholders (tool_outputs st) a))])"
  unfolding process_query_step_def Let_def
  by (auto split: sum.splits json.splits list.splits if_splits)

lemma process_query_step_None:
  "process_query_step host f p step st = (None, st') \<Longrightarrow>
     \<exists>n a text ts. subscript step ''name'' = Inr n \<and> subscript step ''arguments'' = Inr (JObject a)
        \<and> \<not> unhashable n
        \<and> host (calls st) n (inject_defaults n f p (resolve_placeholders (tool_outputs st) a))
              = Inr (text # ts)
        \<and> st' = st\<lparr>calls := calls st @
                  [(n, inject_defaults n f p (resolve_placeholders (tool_outputs st) a))],
                tool_outputs := dict_set (tool_outputs st) n text,
                messages := messages st @
                  [\<lparr>role = ''tool'', tool_call_id = Some n, content = text\<rparr>]\<rparr>"
  unfolding process_query_step_def Let_def
  by (auto split: sum.splits json.splits list.splits if_splits)

lemma process_query_steps_append:
  "process_query_steps host f p (xs @ ys) st =
     (case process_query_steps host f p xs st of
        (Some e, st') \<Rightarrow> (Some e, st')
      | (None, st') \<Rightarrow> process_query_steps host f p ys st')"
  by (induction xs arbitrary: st) (auto split: prod.splits option.splits)

lemma process_query_step_invokes:
  assumes "subscript step ''name'' = Inr n" and "subscript step ''arguments'' = Inr (JObject a)"
  shows "calls (snd (process_query_step host f p step st)) =
           calls st @ [(n, inject_defaults n f p (resolve_placeholders (tool_outputs st) a))]"
  using assms
  by (simp add: process_query_step_wellformed Let_def split: sum.splits list.splits)

lemma process_query_steps_single:
  "snd (process_query_steps host f p [step] st) = snd (process_query_step host f p step st)"
  by (simp split: prod.splits option.splits)

lemma process_query_step_success:
  assumes "subscript step ''name'' = Inr n" and "subscript step ''arguments'' = Inr (JObject a)"
    and "host (calls st) n (inject_defaults n f p (resolve_placeholders (tool_outputs st) a))
           = Inr (out # ts)"
    and "\<not> unhashable n"
  shows "process_query_step host f p step st =
     (None, st\<lparr>calls := calls st @
                  [(n, inject_defaults n f p (resolve_placeholders (tool_outputs st) a))],
               tool_outputs := dict_set (tool_outputs st) n out,
               messages := messages st @
                  [\<lparr>role = ''tool'', tool_call_id = Some n, content = out\<rparr>]\<rparr>)"
  using assms by (simp add: process_query_step_wellformed Let_def)

lemma process_query_steps_calls_prefix:
  "\<exists>k\<le>length plan.
     map (\<lambda>c. Inr (fst c)) (calls (snd (process_query_steps host f p plan st)))
       = map (\<lambda>c. Inr (fst c)) (calls st) @ map (\<lambda>s. subscript s ''name'') (take k plan)
     \<and> (fst (process_query_steps host f p plan st) = None \<longrightarrow> k = length plan)"
proof (induction plan arbitrary: st)
  case Nil
  then show ?case by simp
next
  case (Cons step plan)
  obtain r st' where step: "process_query_step host f p step st = (r, st')"
    by (cases "process_query_step host f p step st")
  show ?case
  proof (cases r)
    case None
    from process_query_step_None[OF step[unfolded None]] obtain n a out ts where
      n: "subscript step ''name'' = Inr n"
      and st': "st' = st\<lparr>calls := calls st @
                  [(n, inject_defaults n f p (resolve_placeholders (tool_outputs st) a))],
                tool_outputs := dict_set (tool_outputs st) n out,
                messages := messages st @
                  [\<lparr>role = ''tool'', tool_call_id = Some n, content = out\<rparr>]\<rparr>"
      by blast
    define args where "args = inject_defaults n f p (resolve_placeholders (tool_outputs st) a)"
    have c: "calls st' = calls st @ [(n, args)]"
      unfolding st' args_def by simp
    from Cons.IH[of st'] obtain k where kk: "k \<le> length plan \<and>
      (map (\<lambda>c. Inr (fst c)) (calls (snd (process_query_steps host f p plan st')))
         = map (\<lambda>c. Inr (fst c)) (calls st') @ map (\<lambda>s. subscript s ''name'') (take k plan)
      \<and> (fst (process_query_steps host f p plan st') = None \<longrightarrow> k = length plan))" ..
    note k = kk[THEN conjunct1] kk[THEN conjunct2, THEN conjunct1]
      kk[THEN conjunct2, THEN conjunct2]
    have "Suc k \<le> length (step # plan)" using k(1) by simp
    moreover have "map (\<lambda>c. Inr (fst c)) (calls (snd (process_query_steps host f p (step # plan) st)))
       = map (\<lambda>c. Inr (fst c)) (calls st) @ map (\<lambda>s. subscript s ''name'') (take (Suc k) (step # plan))"
      using k(2) n c step None by simp
    moreover have "fst (process_query_steps host f p (step # plan) st) = None
        \<longrightarrow> Suc k = length (step # plan)"
      using k(3) step None by simp
    ultimately show ?thesis by (intro exI[of _ "Suc k"] conjI)
  next
    case (Some e)
    have res: "process_query_steps host f p (step # plan) st = (Some e, st')"
      using step Some by simp
    from process_query_step_calls[OF step]
    consider "calls st' = calls st"
      | n args where "subscript step ''name'' = Inr n" "calls st' = calls st @ [(n, args)]"
      by blast
    then show ?thesis
    proof cases
      case 1
      with res show ?thesis by (intro exI[of _ 0]) simp
    next
      case 2
      with res show ?thesis by (intro exI[of _ 1]) simp
    qed
  qed
qed

section \<open>Claims about the plan parser\<close>

text \<open>
  C1. The claim: for a well-formed plan text, a JSON array of objects with a \<open>name\<close> and
  an \<open>arguments\<close> mapping, the plan parser returns the (name, arguments) pairs of the
  array, in order. The code does not: the pattern of line 165 has lost its fence
  markers, its group holds one character, and \<open>json.loads\<close> never sees the array. At
  the plan text below, which \<open>json.loads\<close> decodes to a one-step plan, the parser prints
  the failure line and returns the empty plan (as it does for every text, by
  \<open>plan_tool_use_parse_empty\<close>).
\<close>

theorem wellformed_plan_parsed_to_nothing:
  \<open>json_loads ''[{"name": "toolA", "arguments": {}}]'' =
     Inr (JArray [JObject [(''name'', JString ''toolA''), (''arguments'', JObject [])]])
   \<and> plan_tool_use_parse ''[{"name": "toolA", "arguments": {}}]'' =
     ([], [plan_failed_prefix @ ''[{"name": "toolA", "arguments": {}}]''])\<close>
  by code_simp

text \<open>
  C3. The claim: for a malformed planner text the plan parser returns an empty plan,
  raises nothing and surfaces the raw text as a diagnostic. The empty plan and the
  absence of an exception hold (the parser is a total function into plans and printed
  lines, and its plan is always empty), but the diagnostic is lost whenever the one
  character the pattern extracts is a digit: the text below is not JSON, and the parser
  returns the empty plan and prints nothing.
\<close>

theorem malformed_text_without_diagnostic:
  \<open>json_loads ''42 is not a plan'' = Inl JSONDecodeError
   \<and> plan_tool_use_parse ''42 is not a plan'' = ([], [])\<close>
  by code_simp

section \<open>Claims about the executor\<close>

text \<open>
  C2. The claim: when the invocation of a step fails, the executor records the failure,
  appends a tool-role message for it and goes on with the remaining steps. The loop of
  \<open>process_query\<close> has no handler: an invocation that raises ends the loop. With a host
  that raises on \<open>badTool\<close>, the plan [badTool, goodTool] makes one invocation, records
  nothing, appends nothing, and \<open>goodTool\<close> is never invoked.
\<close>

theorem failing_step_aborts_counterexample:
  "process_query_steps (replay_host [Inl ''boom'', Inr [''done'']]) ''f.txt'' ''d/f.txt''
     [plan_step ''badTool'' [], plan_step ''goodTool'' []] (initial_state ''q'')
   = (Some (Raised ''boom''),
      \<lparr>tool_outputs = [],
       messages = [\<lparr>role = ''user'', tool_call_id = None, content = ''q''\<rparr>],
       calls = [(JString ''badTool'', [])]\<rparr>)"
  by code_simp

text \<open>
  C2, as the code has it. For a step that is a dict with a name and a dict of arguments:
  if the invocation raises, the exception leaves the loop at once (the invocation is the
  last one made, nothing is recorded, nothing is appended, no later step runs); if the
  host answers with a text, be it the description of an error, the text is recorded
  under the tool name, appended as a tool-role message, and the loop goes on with the
  remaining steps.
\<close>

theorem raising_step_aborts_reported_error_continues:
  assumes "subscript step ''name'' = Inr n"
    and "subscript step ''arguments'' = Inr (JObject a)"
    and "args = inject_defaults n f p (resolve_placeholders (tool_outputs st) a)"
  shows "(host (calls st) n args = Inl msg \<longrightarrow>
            process_query_steps host f p (step # rest) st =
              (Some (Raised msg), st\<lparr>calls := calls st @ [(n, args)]\<rparr>))
       \<and> (host (calls st) n args = Inr (text # ts) \<and> \<not> unhashable n \<longrightarrow>
            process_query_steps host f p (step # rest) st =
              process_query_steps host f p rest
                (st\<lparr>calls := calls st @ [(n, args)],
                    tool_outputs := dict_set (tool_outputs st) n text,
                    messages := messages st @
                      [\<lparr>role = ''tool'', tool_call_id = Some n, content = text\<rparr>]\<rparr>))"
  using assms
  by (simp add: process_query_step_wellformed Let_def)

theorem raising_step_aborts_reported_error_continues_witness:
  "process_query_steps (replay_host [Inl ''boom'', Inr [''done'']]) ''f.txt'' ''d/f.txt''
     [plan_step ''badTool'' [], plan_step ''goodTool'' []] (initial_state ''q'')
   = (Some (Raised ''boom''), (initial_state ''q'')\<lparr>calls := [(JString ''badTool'', [])]\<rparr>)
   \<and> process_query_steps (replay_host [Inr [''Unknown tool: badTool''], Inr [''done'']])
     ''f.txt'' ''d/f.txt''
     [plan_step ''badTool'' [], plan_step ''goodTool'' []] (initial_state ''q'')
   = (None,
      \<lparr>tool_outputs = [(JString ''badTool'', ''Unknown tool: badTool''),
                       (JString ''goodTool'', ''done'')],
       messages = [\<lparr>role = ''user'', tool_call_id = None, content = ''q''\<rparr>,
                   \<lparr>role = ''tool'', tool_call_id = Some (JString ''badTool''),
                    content = ''Unknown tool: badTool''\<rparr>,
                   \<lparr>role = ''tool'', tool_call_id = Some (JString ''goodTool''),
                    content = ''done''\<rparr>],
       calls = [(JString ''badTool'', []), (JString ''goodTool'', [])]\<rparr>)"
proof -
  let ?bad = "plan_step ''badTool'' []" and ?good = "plan_step ''goodTool'' []"
  let ?st = "initial_state ''q''"
  have n: "subscript ?bad ''name'' = Inr (JString ''badTool'')"
    and a: "subscript ?bad ''arguments'' = Inr (JObject [])"
    by simp_all
  have args: "[] = inject_defaults (JString ''badTool'') ''f.txt'' ''d/f.txt''
                     (resolve_placeholders (tool_outputs ?st) [])"
    by (simp add: inject_defaults_def)
  note both = raising_step_aborts_reported_error_continues [OF n a args]
  have raised: "replay_host [Inl ''boom'', Inr [''done'']] (calls ?st) (JString ''badTool'') []
                  = Inl ''boom''"
    by (simp add: replay_host_def initial_state_def)
  have reported: "replay_host [Inr [''Unknown tool: badTool''], Inr [''done'']] (calls ?st)
                    (JString ''badTool'') [] = Inr [''Unknown tool: badTool'']
                  \<and> \<not> unhashable (JString ''badTool'')"
    by (simp add: replay_host_def initial_state_def unhashable_def)
  have first: "process_query_steps (replay_host [Inl ''boom'', Inr [''done'']]) ''f.txt''
      ''d/f.txt'' [?bad, ?good] ?st
     = (Some (Raised ''boom''), ?st\<lparr>calls := [(JString ''badTool'', [])]\<rparr>)"
    using both [where host = "replay_host [Inl ''boom'', Inr [''done'']]",
        THEN conjunct1, rule_format, OF raised]
    by (simp add: initial_state_def)
  have "process_query_steps (replay_host [Inr [''Unknown tool: badTool''], Inr [''done'']])
      ''f.txt'' ''d/f.txt'' [?bad, ?good] ?st
     = process_query_steps (replay_host [Inr [''Unknown tool: badTool''], Inr [''done'']])
      ''f.txt'' ''d/f.txt'' [?good]
        (?st\<lparr>calls := calls ?st @ [(JString ''badTool'', [])],
             tool_outputs := dict_set (tool_outputs ?st) (JString ''badTool'')
                               ''Unknown tool: badTool'',
             messages := messages ?st @
               [\<lparr>role = ''tool'', tool_call_id = Some (JString ''badTool''),
                 content = ''Unknown tool: badTool''\<rparr>]\<rparr>)"
    by (rule both [where host = "replay_host [Inr [''Unknown tool: badTool''], Inr [''done'']]",
        THEN conjunct2, rule_format, OF reported])
  also have "\<dots> = (None,
      \<lparr>tool_outputs = [(JString ''badTool'', ''Unknown tool: badTool''),
                       (JString ''goodTool'', ''done'')],
       messages = [\<lparr>role = ''user'', tool_call_id = None, content = ''q''\<rparr>,
                   \<lparr>role = ''tool'', tool_call_id = Some (JString ''badTool''),
                    content = ''Unknown tool: badTool''\<rparr>,
                   \<lparr>role = ''tool'', tool_call_id = Some (JString ''goodTool''),
                    content = ''done''\<rparr>],
       calls = [(JString ''badTool'', []), (JString ''goodTool'', [])]\<rparr>)"
    by code_simp
  finally show ?thesis using first by simp
qed

lemma placeholder_toolA:
  "startswith ''{{toolA}}'' ''{{''" "endswith ''{{toolA}}'' ''}}''"
  "py_strip_chars ''{} '' ''{{toolA}}'' = ''toolA''"
  by (simp_all add: startswith_def endswith_def py_strip_chars_def)

text \<open>
  C4. The executor runs the steps one after the other in plan order, and resolves the
  placeholders of a step against the results recorded so far before it invokes the tool.
  First conjunct: the tool names invoked are those of a prefix of the plan, in plan
  order, and of the whole plan when no exception ends the loop. Second conjunct: after
  the steps \<open>before\<close> have run, the next step is invoked with its arguments resolved
  against the outputs recorded by them. Third conjunct: for the plan
  [toolA with no argument, toolB with x = {{toolA}}] and any host whose answer to toolA
  is the text \<open>out\<close> (the text 42 of the claim, say), toolB is invoked with x = \<open>out\<close>.
\<close>

theorem steps_run_in_plan_order_on_accumulated_results:
  "(\<exists>k\<le>length plan.
      map (\<lambda>c. Inr (fst c)) (calls (snd (process_query_steps host f p plan st)))
        = map (\<lambda>c. Inr (fst c)) (calls st) @ map (\<lambda>s. subscript s ''name'') (take k plan)
      \<and> (fst (process_query_steps host f p plan st) = None \<longrightarrow> k = length plan))
   \<and> (process_query_steps host f p before st = (None, st1)
        \<and> subscript step ''name'' = Inr n \<and> subscript step ''arguments'' = Inr (JObject a)
      \<longrightarrow> calls (snd (process_query_steps host f p (before @ [step]) st))
            = calls st1 @ [(n, inject_defaults n f p (resolve_placeholders (tool_outputs st1) a))])
   \<and> (host [] (JString ''toolA'') [] = Inr (out # ts)
      \<longrightarrow> calls (snd (process_query_steps host f p
                  [plan_step ''toolA'' [], plan_step ''toolB'' [(''x'', JString ''{{toolA}}'')]]
                  (initial_state q)))
            = [(JString ''toolA'', []), (JString ''toolB'', [(''x'', JString out)])])"
proof (intro conjI impI)
  show "\<exists>k\<le>length plan.
      map (\<lambda>c. Inr (fst c)) (calls (snd (process_query_steps host f p plan st)))
        = map (\<lambda>c. Inr (fst c)) (calls st) @ map (\<lambda>s. subscript s ''name'') (take k plan)
      \<and> (fst (process_query_steps host f p plan st) = None \<longrightarrow> k = length plan)"
    by (rule process_query_steps_calls_prefix)
next
  assume h: "process_query_steps host f p before st = (None, st1)
        \<and> subscript step ''name'' = Inr n \<and> subscript step ''arguments'' = Inr (JObject a)"
  have "process_query_steps host f p (before @ [step]) st = process_query_steps host f p [step] st1"
    using h by (simp add: process_query_steps_append)
  then show "calls (snd (process_query_steps host f p (before @ [step]) st))
            = calls st1 @ [(n, inject_defaults n f p (resolve_placeholders (tool_outputs st1) a))]"
    using h by (simp only: process_query_steps_single process_query_step_invokes)
next
  assume h: "host [] (JString ''toolA'') [] = Inr (out # ts)"
  let ?A = "plan_step ''toolA'' []"
  let ?B = "plan_step ''toolB'' [(''x'', JString ''{{toolA}}'')]"
  let ?st1 = "(initial_state q)\<lparr>calls := calls (initial_state q) @ [(JString ''toolA'',
                   inject_defaults (JString ''toolA'') f p
                     (resolve_placeholders (tool_outputs (initial_state q)) []))],
               tool_outputs := dict_set (tool_outputs (initial_state q)) (JString ''toolA'') out,
               messages := messages (initial_state q) @
                  [\<lparr>role = ''tool'', tool_call_id = Some (JString ''toolA''), content = out\<rparr>]\<rparr>"
  have inj: "inject_defaults (JString ''toolA'') f p [] = []"
    "\<And>xs. inject_defaults (JString ''toolB'') f p xs = xs"
    by (simp_all add: inject_defaults_def)
  have first: "process_query_step host f p ?A (initial_state q) = (None, ?st1)"
    by (rule process_query_step_success)
       (simp_all add: h inj initial_state_def unhashable_def)
  have c1: "calls ?st1 = [(JString ''toolA'', [])]"
    and o1: "tool_outputs ?st1 = [(JString ''toolA'', out)]"
    by (simp_all add: initial_state_def inj dict_set_def)
  have "calls (snd (process_query_steps host f p [?A, ?B] (initial_state q)))
          = calls (snd (process_query_step host f p ?B ?st1))"
    using first process_query_steps_single[of host f p ?B ?st1] by simp
  also have "\<dots> = calls ?st1 @ [(JString ''toolB'',
        inject_defaults (JString ''toolB'') f p
          (resolve_placeholders (tool_outputs ?st1) [(''x'', JString ''{{toolA}}'')]))]"
    by (rule process_query_step_invokes) simp_all
  also have "\<dots> = [(JString ''toolA'', []), (JString ''toolB'', [(''x'', JString out)])]"
    unfolding c1 o1
    by (simp add: inj resolve_value_def placeholder_toolA dict_get_def)
  finally show "calls (snd (process_query_steps host f p [?A, ?B] (initial_state q)))
            = [(JString ''toolA'', []), (JString ''toolB'', [(''x'', JString out)])]" .
qed

theorem steps_run_in_plan_order_on_accumulated_results_witness:
  "map (\<lambda>c. Inr (fst c))
     (calls (snd (process_query_steps (replay_host [Inr [''42''], Inr [''ok'']]) ''f.txt'' ''d/f.txt''
        [plan_step ''toolA'' [], plan_step ''toolB'' [(''x'', JString ''{{toolA}}'')]]
        (initial_state ''q''))))
     = [subscript (plan_step ''toolA'' []) ''name'',
        subscript (plan_step ''toolB'' [(''x'', JString ''{{toolA}}'')]) ''name'']
   \<and> calls (snd (process_query_steps (replay_host [Inr [''42''], Inr [''ok'']]) ''f.txt'' ''d/f.txt''
        ([plan_step ''toolA'' []] @ [plan_step ''toolB'' [(''x'', JString ''{{toolA}}'')]])
        (initial_state ''q'')))
     = [(JString ''toolA'', []), (JString ''toolB'', [(''x'', JString ''42'')])]
   \<and> calls (snd (process_query_steps (replay_host [Inr [''42''], Inr [''ok'']]) ''f.txt'' ''d/f.txt''
        [plan_step ''toolA'' [], plan_step ''toolB'' [(''x'', JString ''{{toolA}}'')]]
        (initial_state ''q'')))
     = [(JString ''toolA'', []), (JString ''toolB'', [(''x'', JString ''42'')])]"
proof -
  let ?H = "replay_host [Inr [''42''], Inr [''ok'']]"
  let ?A = "plan_step ''toolA'' []"
  let ?B = "plan_step ''toolB'' [(''x'', JString ''{{toolA}}'')]"
  let ?st1 = "\<lparr>tool_outputs = [(JString ''toolA'', ''42'')],
               messages = [\<lparr>role = ''user'', tool_call_id = None, content = ''q''\<rparr>,
                           \<lparr>role = ''tool'', tool_call_id = Some (JString ''toolA''),
                            content = ''42''\<rparr>],
               calls = [(JString ''toolA'', [])]\<rparr>"
  note T = steps_run_in_plan_order_on_accumulated_results
    [where plan = "[?A, ?B]" and host = ?H and f = "''f.txt''" and p = "''d/f.txt''"
       and st = "initial_state ''q''" and before = "[?A]" and ?st1.0 = ?st1 and step = ?B
       and n = "JString ''toolB''" and a = "[(''x'', JString ''{{toolA}}'')]"
       and out = "''42''" and ts = "[]" and q = "''q''"]
  have before: "process_query_steps ?H ''f.txt'' ''d/f.txt'' [?A] (initial_state ''q'') = (None, ?st1)"
    by code_simp
  have whole: "fst (process_query_steps ?H ''f.txt'' ''d/f.txt'' [?A, ?B] (initial_state ''q'')) = None"
    by code_simp
  have wf: "subscript ?B ''name'' = Inr (JString ''toolB'')"
    "subscript ?B ''arguments'' = Inr (JObject [(''x'', JString ''{{toolA}}'')])"
    by simp_all
  have host: "?H [] (JString ''toolA'') [] = Inr [''42'']"
    by (simp add: replay_host_def)
  from T[THEN conjunct1] obtain k where
    k: "k \<le> length [?A, ?B] \<and>
        (map (\<lambda>c. Inr (fst c))
          (calls (snd (process_query_steps ?H ''f.txt'' ''d/f.txt'' [?A, ?B] (initial_state ''q''))))
         = map (\<lambda>c. Inr (fst c)) (calls (initial_state ''q''))
             @ map (\<lambda>s. subscript s ''name'') (take k [?A, ?B])
        \<and> (fst (process_query_steps ?H ''f.txt'' ''d/f.txt'' [?A, ?B] (initial_state ''q'')) = None
             \<longrightarrow> k = length [?A, ?B]))" ..
  from k whole have "k = 2" by simp
  with k have order: "map (\<lambda>c. Inr (fst c))
          (calls (snd (process_query_steps ?H ''f.txt'' ''d/f.txt'' [?A, ?B] (initial_state ''q''))))
         = [subscript ?A ''name'', subscript ?B ''name'']"
    by (simp add: initial_state_def)
  have "calls (snd (process_query_steps ?H ''f.txt'' ''d/f.txt'' ([?A] @ [?B]) (initial_state ''q'')))
          = calls ?st1 @ [(JString ''toolB'', inject_defaults (JString ''toolB'') ''f.txt'' ''d/f.txt''
              (resolve_placeholders (tool_outputs ?st1) [(''x'', JString ''{{toolA}}'')]))]"
    by (rule T[THEN conjunct2, THEN conjunct1, rule_format, OF conjI[OF before conjI[OF wf]]])
  also have "\<dots> = [(JString ''toolA'', []), (JString ''toolB'', [(''x'', JString ''42'')])]"
    by code_simp
  finally have bound: "calls (snd (process_query_steps ?H ''f.txt'' ''d/f.txt'' ([?A] @ [?B])
      (initial_state ''q''))) = [(JString ''toolA'', []), (JString ''toolB'', [(''x'', JString ''42'')])]" .
  have scenario: "calls (snd (process_query_steps ?H ''f.txt'' ''d/f.txt'' [?A, ?B] (initial_state ''q'')))
      = [(JString ''toolA'', []), (JString ''toolB'', [(''x'', JString ''42'')])]"
    by (rule T[THEN conjunct2, THEN conjunct2, rule_format, OF host])
  from order bound scenario show ?thesis by (intro conjI)
qed

lemma resolve_placeholders_nth:
  "i < length a \<Longrightarrow>
     resolve_placeholders outs a ! i = (fst (a ! i), resolve_value outs (snd (a ! i)))"
  by (simp add: resolve_placeholders_map case_prod_beta)

lemma length_resolve_placeholders [simp]:
  "length (resolve_placeholders outs a) = length a"
  by (simp add: resolve_placeholders_map)

text \<open>
  C5. A placeholder whose tool has no entry in the recorded outputs (a step that has not
  run, or a misspelt name) is replaced by \<open>None\<close>; resolution is a total function on
  dicts, so nothing is raised, and the step is invoked all the same, with the null
  argument: rejecting it is left to the tool host.
\<close>

theorem missing_reference_resolves_to_null:
  assumes "i < length a" and "a ! i = (k, JString s)"
    and "startswith s ''{{''" and "endswith s ''}}''"
    and "dict_get outs (JString (py_strip_chars ''{} '' s)) = None"
  shows "resolve_placeholders outs a ! i = (k, JNull)
       \<and> length (resolve_placeholders outs a) = length a
       \<and> (subscript step ''name'' = Inr n \<and> subscript step ''arguments'' = Inr (JObject a)
            \<and> tool_outputs st = outs
          \<longrightarrow> calls (snd (process_query_step host f p step st))
                = calls st @ [(n, inject_defaults n f p (resolve_placeholders outs a))])"
proof (intro conjI impI)
  show "resolve_placeholders outs a ! i = (k, JNull)"
    using assms by (simp add: resolve_placeholders_nth resolve_value_def)
  show "length (resolve_placeholders outs a) = length a" by simp
next
  assume "subscript step ''name'' = Inr n \<and> subscript step ''arguments'' = Inr (JObject a)
            \<and> tool_outputs st = outs"
  then show "calls (snd (process_query_step host f p step st))
                = calls st @ [(n, inject_defaults n f p (resolve_placeholders outs a))]"
    using process_query_step_invokes[of step n a host f p st] by simp
qed

theorem missing_reference_resolves_to_null_witness:
  "resolve_placeholders [(JString ''toolA'', ''42'')]
       [(''x'', JString ''{{toolA}}''), (''y'', JString ''{{toolZ}}'')] ! 1 = (''y'', JNull)
   \<and> calls (snd (process_query_step (replay_host [Inr [''ok'']]) ''f.txt'' ''d/f.txt''
        (plan_step ''toolB'' [(''x'', JString ''{{toolA}}''), (''y'', JString ''{{toolZ}}'')])
        \<lparr>tool_outputs = [(JString ''toolA'', ''42'')], messages = [], calls = []\<rparr>))
      = [(JString ''toolB'', [(''x'', JString ''42''), (''y'', JNull)])]"
proof -
  let ?a = "[(''x'', JString ''{{toolA}}''), (''y'', JString ''{{toolZ}}'')]"
  let ?outs = "[(JString ''toolA'', ''42'')]"
  let ?st = "\<lparr>tool_outputs = ?outs, messages = [], calls = []\<rparr>"
  have i: "1 < length ?a" and ai: "?a ! 1 = (''y'', JString ''{{toolZ}}'')" by simp_all
  have s: "startswith ''{{toolZ}}'' ''{{''" and e: "endswith ''{{toolZ}}'' ''}}''"
    by (simp_all add: startswith_def endswith_def)
  have g: "dict_get ?outs (JString (py_strip_chars ''{} '' ''{{toolZ}}'')) = None"
    by (simp add: dict_get_def py_strip_chars_def)
  note T = missing_reference_resolves_to_null[OF i ai s e g,
      where step = "plan_step ''toolB'' ?a" and n = "JString ''toolB''" and st = ?st
        and host = "replay_host [Inr [''ok'']]" and f = "''f.txt''" and p = "''d/f.txt''"]
  have "calls (snd (process_query_step (replay_host [Inr [''ok'']]) ''f.txt'' ''d/f.txt''
          (plan_step ''toolB'' ?a) ?st))
        = calls ?st @ [(JString ''toolB'', inject_defaults (JString ''toolB'') ''f.txt'' ''d/f.txt''
             (resolve_placeholders ?outs ?a))]"
    by (rule T[THEN conjunct2, THEN conjunct2, rule_format]) simp
  also have "\<dots> = [(JString ''toolB'', [(''x'', JString ''42''), (''y'', JNull)])]"
    by code_simp
  finally show ?thesis using T[THEN conjunct1] by simp
qed

text \<open>
  C6. The claim: resolving an already resolved dict of arguments a second time changes
  nothing. It does change it when a recorded output has itself the form of a
  placeholder: with toolA's output being the text {{toolB}}, the first resolution of
  {{toolA}} gives {{toolB}} and the second gives toolB's output.
\<close>

theorem second_resolution_changes_result_counterexample:
  "resolve_placeholders [(JString ''toolA'', ''{{toolB}}''), (JString ''toolB'', ''x'')]
     (resolve_placeholders [(JString ''toolA'', ''{{toolB}}''), (JString ''toolB'', ''x'')]
        [(''k'', JString ''{{toolA}}'')])
     \<noteq> resolve_placeholders [(JString ''toolA'', ''{{toolB}}''), (JString ''toolB'', ''x'')]
        [(''k'', JString ''{{toolA}}'')]
   \<and> resolve_placeholders [(JString ''toolA'', ''{{toolB}}''), (JString ''toolB'', ''x'')]
     (resolve_placeholders [(JString ''toolA'', ''{{toolB}}''), (JString ''toolB'', ''x'')]
        [(''k'', JString ''{{toolA}}'')])
     = [(''k'', JString ''x'')]
   \<and> resolve_placeholders [(JString ''toolA'', ''{{toolB}}''), (JString ''toolB'', ''x'')]
        [(''k'', JString ''{{toolA}}'')]
     = [(''k'', JString ''{{toolB}}'')]"
  by code_simp

lemma resolve_value_not_placeholder:
  assumes "\<forall>t \<in> snd ` set outs. \<not> is_placeholder (JString t)"
  shows "\<not> is_placeholder (resolve_value outs v)"
proof (cases "is_placeholder v")
  case False
  then show ?thesis by (simp add: resolve_value_id)
next
  case True
  then obtain s where v: "v = JString s" and ph: "startswith s ''{{'' \<and> endswith s ''}}''"
    by (cases v) (auto simp: is_placeholder_def)
  show ?thesis
  proof (cases "dict_get outs (JString (py_strip_chars ''{} '' s))")
    case None
    with v ph show ?thesis by (simp add: resolve_value_def is_placeholder_def)
  next
    case (Some t)
    then have "t \<in> snd ` set outs"
      by (auto simp: dict_get_def dest!: map_of_SomeD intro: rev_image_eqI)
    with assms have "\<not> is_placeholder (JString t)" by blast
    with v ph Some show ?thesis by (simp add: resolve_value_def)
  qed
qed

text \<open>
  C6, as the code has it. Resolution is one pass: the value put in place of a
  placeholder is the recorded text as it is, whatever it looks like. Resolving a second
  time changes nothing provided that no recorded output has the form of a placeholder.
\<close>

theorem second_resolution_is_noop_without_placeholder_outputs:
  "(is_placeholder (JString s) \<and> dict_get outs (JString (py_strip_chars ''{} '' s)) = Some t
      \<longrightarrow> resolve_value outs (JString s) = JString t)
   \<and> ((\<forall>t \<in> snd ` set outs. \<not> is_placeholder (JString t))
      \<longrightarrow> resolve_placeholders outs (resolve_placeholders outs a) = resolve_placeholders outs a)"
proof (intro conjI impI)
  assume "is_placeholder (JString s) \<and> dict_get outs (JString (py_strip_chars ''{} '' s)) = Some t"
  then show "resolve_value outs (JString s) = JString t"
    by (simp add: resolve_value_def is_placeholder_def)
next
  assume h: "\<forall>t \<in> snd ` set outs. \<not> is_placeholder (JString t)"
  have "resolve_value outs (resolve_value outs v) = resolve_value outs v" for v
    using resolve_value_not_placeholder[OF h, of v] by (rule resolve_value_id)
  then show "resolve_placeholders outs (resolve_placeholders outs a) = resolve_placeholders outs a"
    by (induction a) auto
qed

theorem second_resolution_is_noop_without_placeholder_outputs_witness:
  "resolve_value [(JString ''toolA'', ''{{toolB}}''), (JString ''toolB'', ''x'')]
      (JString ''{{toolA}}'') = JString ''{{toolB}}''
   \<and> resolve_placeholders [(JString ''toolA'', ''42'')]
        (resolve_placeholders [(JString ''toolA'', ''42'')]
           [(''x'', JString ''{{toolA}}''), (''y'', JString ''{{toolZ}}''), (''z'', JInt 1)])
     = [(''x'', JString ''42''), (''y'', JNull), (''z'', JInt 1)]"
proof -
  have 1: "is_placeholder (JString ''{{toolA}}'')
        \<and> dict_get [(JString ''toolA'', ''{{toolB}}''), (JString ''toolB'', ''x'')]
             (JString (py_strip_chars ''{} '' ''{{toolA}}'')) = Some ''{{toolB}}''"
    by (simp add: is_placeholder_def placeholder_toolA dict_get_def)
  have 2: "\<forall>t \<in> snd ` set [(JString ''toolA'', ''42'')]. \<not> is_placeholder (JString t)"
    by (simp add: is_placeholder_def startswith_def)
  note T = second_resolution_is_noop_without_placeholder_outputs
  have "resolve_placeholders [(JString ''toolA'', ''42'')]
        (resolve_placeholders [(JString ''toolA'', ''42'')]
           [(''x'', JString ''{{toolA}}''), (''y'', JString ''{{toolZ}}''), (''z'', JInt 1)])
     = resolve_placeholders [(JString ''toolA'', ''42'')]
           [(''x'', JString ''{{toolA}}''), (''y'', JString ''{{toolZ}}''), (''z'', JInt 1)]"
    by (rule T[THEN conjunct2, THEN mp, OF 2])
  also have "\<dots> = [(''x'', JString ''42''), (''y'', JNull), (''z'', JInt 1)]"
    by code_simp
  finally show ?thesis using T[THEN conjunct1, rule_format, OF 1] by simp
qed

lemma dict_get_inject_filename:
  "dict_get (inject_defaults (JString ''analyze_sentiment'') f p a) ''filename''
     = (case dict_get a ''filename'' of None \<Rightarrow> Some (JString f) | Some v \<Rightarrow> Some v)"
  by (auto simp: inject_defaults_def dict_has_get dict_get_set_same split: option.splits)

lemma dict_get_inject_attachment:
  "dict_get (inject_defaults (JString ''send_email_with_attachment'') f p a) ''attachment_path''
     = (case dict_get a ''attachment_path'' of None \<Rightarrow> Some (JString p) | Some v \<Rightarrow> Some v)"
  by (auto simp: inject_defaults_def dict_has_get dict_get_set_same split: option.splits)

text \<open>
  C7. The default file name is given to \<open>analyze_sentiment\<close>, and the default path to
  \<open>send_email_with_attachment\<close>, only when the arguments of the step lack the key; a
  step that has the key keeps its arguments; no other tool gets a default. Last
  conjunct: the invocation of an \<open>analyze_sentiment\<close> step carries, under \<open>filename\<close>,
  the default when the step has no such key and otherwise the step's own value (after
  the resolution of placeholders, which leaves a literal value as it is).
\<close>

theorem defaults_fill_only_missing_arguments:
  "(\<not> dict_has a ''filename'' \<longrightarrow>
      inject_defaults (JString ''analyze_sentiment'') f p a = a @ [(''filename'', JString f)])
   \<and> (dict_has a ''filename'' \<longrightarrow> inject_defaults (JString ''analyze_sentiment'') f p a = a)
   \<and> (\<not> dict_has a ''attachment_path'' \<longrightarrow>
      inject_defaults (JString ''send_email_with_attachment'') f p a
        = a @ [(''attachment_path'', JString p)])
   \<and> (dict_has a ''attachment_path'' \<longrightarrow>
      inject_defaults (JString ''send_email_with_attachment'') f p a = a)
   \<and> (n \<noteq> JString ''analyze_sentiment'' \<and> n \<noteq> JString ''send_email_with_attachment'' \<longrightarrow>
      inject_defaults n f p a = a)
   \<and> (subscript step ''name'' = Inr (JString ''analyze_sentiment'')
        \<and> subscript step ''arguments'' = Inr (JObject a) \<longrightarrow>
      (\<exists>args. calls (snd (process_query_step host f p step st))
                = calls st @ [(JString ''analyze_sentiment'', args)]
         \<and> dict_get args ''filename''
             = (case dict_get a ''filename'' of
                  None \<Rightarrow> Some (JString f)
                | Some v \<Rightarrow> Some (resolve_value (tool_outputs st) v))))"
proof (intro conjI impI)
  show "inject_defaults (JString ''analyze_sentiment'') f p a = a @ [(''filename'', JString f)]"
    if "\<not> dict_has a ''filename''"
    using that by (simp add: inject_defaults_def dict_set_absent)
  show "inject_defaults (JString ''analyze_sentiment'') f p a = a" if "dict_has a ''filename''"
    using that by (simp add: inject_defaults_def)
  show "inject_defaults (JString ''send_email_with_attachment'') f p a
        = a @ [(''attachment_path'', JString p)]" if "\<not> dict_has a ''attachment_path''"
    using that by (simp add: inject_defaults_def dict_set_absent)
  show "inject_defaults (JString ''send_email_with_attachment'') f p a = a"
    if "dict_has a ''attachment_path''"
    using that by (simp add: inject_defaults_def)
  show "inject_defaults n f p a = a"
    if "n \<noteq> JString ''analyze_sentiment'' \<and> n \<noteq> JString ''send_email_with_attachment''"
    using that by (simp add: inject_defaults_def)
  show "\<exists>args. calls (snd (process_query_step host f p step st))
                = calls st @ [(JString ''analyze_sentiment'', args)]
         \<and> dict_get args ''filename''
             = (case dict_get a ''filename'' of
                  None \<Rightarrow> Some (JString f)
                | Some v \<Rightarrow> Some (resolve_value (tool_outputs st) v))"
    if "subscript step ''name'' = Inr (JString ''analyze_sentiment'')
        \<and> subscript step ''arguments'' = Inr (JObject a)"
  proof (intro exI conjI)
    show "calls (snd (process_query_step host f p step st))
           = calls st @ [(JString ''analyze_sentiment'',
               inject_defaults (JString ''analyze_sentiment'') f p
                 (resolve_placeholders (tool_outputs st) a))]"
      using that by (simp add: process_query_step_invokes)
    show "dict_get (inject_defaults (JString ''analyze_sentiment'') f p
                 (resolve_placeholders (tool_outputs st) a)) ''filename''
           = (case dict_get a ''filename'' of
                  None \<Rightarrow> Some (JString f)
                | Some v \<Rightarrow> Some (resolve_value (tool_outputs st) v))"
      by (simp add: dict_get_inject_filename dict_get_resolve split: option.splits)
  qed
qed

theorem defaults_fill_only_missing_arguments_witness:
  "inject_defaults (JString ''analyze_sentiment'') ''f.txt'' ''d/f.txt'' [(''text'', JString ''hi'')]
     = [(''text'', JString ''hi''), (''filename'', JString ''f.txt'')]
   \<and> inject_defaults (JString ''analyze_sentiment'') ''f.txt'' ''d/f.txt''
       [(''filename'', JString ''g.txt'')] = [(''filename'', JString ''g.txt'')]
   \<and> inject_defaults (JString ''send_email_with_attachment'') ''f.txt'' ''d/f.txt''
       [(''text'', JString ''hi'')]
     = [(''text'', JString ''hi''), (''attachment_path'', JString ''d/f.txt'')]
   \<and> inject_defaults (JString ''send_email_with_attachment'') ''f.txt'' ''d/f.txt''
       [(''attachment_path'', JString ''other.txt'')] = [(''attachment_path'', JString ''other.txt'')]
   \<and> inject_defaults (JString ''toolA'') ''f.txt'' ''d/f.txt'' [(''text'', JString ''hi'')]
     = [(''text'', JString ''hi'')]
   \<and> (\<exists>args. calls (snd (process_query_step (replay_host [Inr [''ok'']]) ''f.txt'' ''d/f.txt''
                  (plan_step ''analyze_sentiment'' [(''filename'', JString ''g.txt'')])
                  (initial_state ''q'')))
               = [(JString ''analyze_sentiment'', args)]
          \<and> dict_get args ''filename'' = Some (JString ''g.txt''))"
proof -
  let ?a = "[(''text'', JString ''hi'')]"
  note T = defaults_fill_only_missing_arguments
  note A = T[where a = ?a and f = "''f.txt''" and p = "''d/f.txt''" and n = "JString ''toolA''"]
  note B = T[where a = "[(''filename'', JString ''g.txt'')]" and f = "''f.txt''"
     and p = "''d/f.txt''" and host = "replay_host [Inr [''ok'']]"
     and step = "plan_step ''analyze_sentiment'' [(''filename'', JString ''g.txt'')]"
     and st = "initial_state ''q''"]
  note C = T[where a = "[(''attachment_path'', JString ''other.txt'')]" and f = "''f.txt''"
     and p = "''d/f.txt''"]
  have 1: "inject_defaults (JString ''analyze_sentiment'') ''f.txt'' ''d/f.txt'' ?a
     = ?a @ [(''filename'', JString ''f.txt'')]"
    by (rule A[THEN conjunct1, THEN mp]) (simp add: dict_has_def)
  have 2: "inject_defaults (JString ''analyze_sentiment'') ''f.txt'' ''d/f.txt''
       [(''filename'', JString ''g.txt'')] = [(''filename'', JString ''g.txt'')]"
    by (rule B[THEN conjunct2, THEN conjunct1, THEN mp]) (simp add: dict_has_def)
  have 3: "inject_defaults (JString ''send_email_with_attachment'') ''f.txt'' ''d/f.txt'' ?a
     = ?a @ [(''attachment_path'', JString ''d/f.txt'')]"
    by (rule A[THEN conjunct2, THEN conjunct2, THEN conjunct1, THEN mp]) (simp add: dict_has_def)
  have 4: "inject_defaults (JString ''send_email_with_attachment'') ''f.txt'' ''d/f.txt''
       [(''attachment_path'', JString ''other.txt'')] = [(''attachment_path'', JString ''other.txt'')]"
    by (rule C[THEN conjunct2, THEN conjunct2, THEN conjunct2, THEN conjunct1, THEN mp])
       (simp add: dict_has_def)
  have 5: "inject_defaults (JString ''toolA'') ''f.txt'' ''d/f.txt'' ?a = ?a"
    by (rule A[THEN conjunct2, THEN conjunct2, THEN conjunct2, THEN conjunct2, THEN conjunct1,
               THEN mp]) simp
  have "\<exists>args. calls (snd (process_query_step (replay_host [Inr [''ok'']]) ''f.txt'' ''d/f.txt''
                  (plan_step ''analyze_sentiment'' [(''filename'', JString ''g.txt'')])
                  (initial_state ''q'')))
               = calls (initial_state ''q'') @ [(JString ''analyze_sentiment'', args)]
          \<and> dict_get args ''filename''
             = (case dict_get [(''filename'', JString ''g.txt'')] ''filename'' of
                  None \<Rightarrow> Some (JString ''f.txt'')
                | Some v \<Rightarrow> Some (resolve_value (tool_outputs (initial_state ''q'')) v))"
    by (rule B[THEN conjunct2, THEN conjunct2, THEN conjunct2, THEN conjunct2, THEN conjunct2,
               THEN mp]) simp
  then have 6: "\<exists>args. calls (snd (process_query_step (replay_host [Inr [''ok'']]) ''f.txt'' ''d/f.txt''
                  (plan_step ''analyze_sentiment'' [(''filename'', JString ''g.txt'')])
                  (initial_state ''q'')))
               = [(JString ''analyze_sentiment'', args)]
          \<and> dict_get args ''filename'' = Some (JString ''g.txt'')"
    by (simp add: initial_state_def dict_get_def resolve_value_def startswith_def)
  from 1 2 3 4 5 6 show ?thesis by simp
qed

text \<open>The steps that complete leave the entries of the tools they do not invoke.\<close>

lemma process_query_steps_frame:
  assumes "process_query_steps host f p later st = (None, st')"
    and "\<forall>s \<in> set later. subscript s ''name'' \<noteq> Inr n"
  shows "dict_get (tool_outputs st') n = dict_get (tool_outputs st) n"
  using assms
proof (induction later arbitrary: st)
  case Nil
  then show ?case by simp
next
  case (Cons s later)
  obtain r st1 where step: "process_query_step host f p s st = (r, st1)"
    by (cases "process_query_step host f p s st")
  with Cons.prems(1) have r: "r = None"
    and rest: "process_query_steps host f p later st1 = (None, st')"
    by (auto split: option.splits)
  from process_query_step_None[OF step[unfolded r]] obtain m a out ts where
    m: "subscript s ''name'' = Inr m"
    and st1: "st1 = st\<lparr>calls := calls st @
                  [(m, inject_defaults m f p (resolve_placeholders (tool_outputs st) a))],
                tool_outputs := dict_set (tool_outputs st) m out,
                messages := messages st @
                  [\<lparr>role = ''tool'', tool_call_id = Some m, content = out\<rparr>]\<rparr>"
    by blast
  from Cons.prems(2) m have "n \<noteq> m" by auto
  then have "dict_get (tool_outputs st1) n = dict_get (tool_outputs st) n"
    unfolding st1 by (simp add: dict_get_set_other)
  moreover have "dict_get (tool_outputs st') n = dict_get (tool_outputs st1) n"
    using Cons.IH[OF rest] Cons.prems(2) by simp
  ultimately show ?case by simp
qed

lemma placeholder_toolY:
  "startswith ''{{toolY}}'' ''{{''" "endswith ''{{toolY}}'' ''}}''"
  "py_strip_chars ''{} '' ''{{toolY}}'' = ''toolY''"
  by (simp_all add: startswith_def endswith_def py_strip_chars_def)

text \<open>
  C9. The recorded outputs are keyed by tool name and the last write wins. First
  conjunct: after a step that completes, the entry of its tool name is the text the host
  returned for this very invocation, whatever was recorded before, the entry of every
  other tool name is what it was before the step, and every placeholder that names the
  tool resolves to the new text. Second conjunct: the entry of a tool name is still the
  same after any further steps that complete and do not invoke this tool. Third
  conjunct: in a plan that invokes toolA twice, then toolY, then toolB with
  x = {{toolA}} and y = {{toolY}}, toolB receives the output of the second invocation
  of toolA and the output of toolY.
\<close>

theorem latest_output_is_recorded_under_tool_name:
  "(process_query_step host f p step st = (None, st') \<and> subscript step ''name'' = Inr n \<longrightarrow>
      (\<exists>out ts. host (calls st) n (snd (last (calls st'))) = Inr (out # ts)
         \<and> (\<forall>k. dict_get (tool_outputs st') k
                  = (if k = n then Some out else dict_get (tool_outputs st) k))
         \<and> (\<forall>s. is_placeholder (JString s) \<and> JString (py_strip_chars ''{} '' s) = n
                \<longrightarrow> resolve_value (tool_outputs st') (JString s) = JString out)))
   \<and> (process_query_steps host f p later st' = (None, st'')
        \<and> (\<forall>s \<in> set later. subscript s ''name'' \<noteq> Inr n)
      \<longrightarrow> dict_get (tool_outputs st'') n = dict_get (tool_outputs st') n)
   \<and> (host [] (JString ''toolA'') [] = Inr (out1 # ts1)
        \<and> host [(JString ''toolA'', [])] (JString ''toolA'') [] = Inr (out2 # ts2)
        \<and> host [(JString ''toolA'', []), (JString ''toolA'', [])] (JString ''toolY'') []
            = Inr (outY # tsY) \<longrightarrow>
      calls (snd (process_query_steps host f p
                [plan_step ''toolA'' [], plan_step ''toolA'' [], plan_step ''toolY'' [],
                 plan_step ''toolB'' [(''x'', JString ''{{toolA}}''), (''y'', JString ''{{toolY}}'')]]
                (initial_state q)))
        = [(JString ''toolA'', []), (JString ''toolA'', []), (JString ''toolY'', []),
           (JString ''toolB'', [(''x'', JString out2), (''y'', JString outY)])])"
proof (intro conjI impI)
  assume h: "process_query_step host f p step st = (None, st') \<and> subscript step ''name'' = Inr n"
  from process_query_step_None[OF h[THEN conjunct1]] obtain n' a out ts where
    n': "subscript step ''name'' = Inr n'"
    and host: "host (calls st) n' (inject_defaults n' f p (resolve_placeholders (tool_outputs st) a))
              = Inr (out # ts)"
    and st': "st' = st\<lparr>calls := calls st @
                  [(n', inject_defaults n' f p (resolve_placeholders (tool_outputs st) a))],
                tool_outputs := dict_set (tool_outputs st) n' out,
                messages := messages st @
                  [\<lparr>role = ''tool'', tool_call_id = Some n', content = out\<rparr>]\<rparr>"
    by blast
  from h n' have [simp]: "n' = n" by simp
  have get: "\<forall>k. dict_get (tool_outputs st') k
                  = (if k = n then Some out else dict_get (tool_outputs st) k)"
    unfolding st' by (simp add: dict_get_set_same dict_get_set_other)
  have "host (calls st) n (snd (last (calls st'))) = Inr (out # ts)"
    unfolding st' using host by simp
  moreover have "\<forall>s. is_placeholder (JString s) \<and> JString (py_strip_chars ''{} '' s) = n
                \<longrightarrow> resolve_value (tool_outputs st') (JString s) = JString out"
    using get by (auto simp: resolve_value_def is_placeholder_def)
  ultimately show "\<exists>out ts. host (calls st) n (snd (last (calls st'))) = Inr (out # ts)
         \<and> (\<forall>k. dict_get (tool_outputs st') k
                  = (if k = n then Some out else dict_get (tool_outputs st) k))
         \<and> (\<forall>s. is_placeholder (JString s) \<and> JString (py_strip_chars ''{} '' s) = n
                \<longrightarrow> resolve_value (tool_outputs st') (JString s) = JString out)"
    using get by blast
next
  assume "process_query_steps host f p later st' = (None, st'')
        \<and> (\<forall>s \<in> set later. subscript s ''name'' \<noteq> Inr n)"
  then show "dict_get (tool_outputs st'') n = dict_get (tool_outputs st') n"
    using process_query_steps_frame[of host f p later st' st'' n] by blast
next
  assume h: "host [] (JString ''toolA'') [] = Inr (out1 # ts1)
        \<and> host [(JString ''toolA'', [])] (JString ''toolA'') [] = Inr (out2 # ts2)
        \<and> host [(JString ''toolA'', []), (JString ''toolA'', [])] (JString ''toolY'') []
            = Inr (outY # tsY)"
  let ?A = "plan_step ''toolA'' []"
  let ?Y = "plan_step ''toolY'' []"
  let ?b = "[(''x'', JString ''{{toolA}}''), (''y'', JString ''{{toolY}}'')]"
  let ?B = "plan_step ''toolB'' ?b"
  let ?m = "\<lambda>t out. \<lparr>role = ''tool'', tool_call_id = Some (JString t), content = out\<rparr>"
  let ?st1 = "\<lparr>tool_outputs = [(JString ''toolA'', out1)],
               messages = messages (initial_state q) @ [?m ''toolA'' out1],
               calls = [(JString ''toolA'', [])]\<rparr>"
  let ?st2 = "\<lparr>tool_outputs = [(JString ''toolA'', out2)],
               messages = messages (initial_state q) @ [?m ''toolA'' out1, ?m ''toolA'' out2],
               calls = [(JString ''toolA'', []), (JString ''toolA'', [])]\<rparr>"
  let ?st3 = "\<lparr>tool_outputs = [(JString ''toolA'', out2), (JString ''toolY'', outY)],
               messages = messages (initial_state q) @
                 [?m ''toolA'' out1, ?m ''toolA'' out2, ?m ''toolY'' outY],
               calls = [(JString ''toolA'', []), (JString ''toolA'', []), (JString ''toolY'', [])]\<rparr>"
  have inj: "inject_defaults (JString ''toolA'') f p [] = []"
    "inject_defaults (JString ''toolY'') f p [] = []"
    "\<And>xs. inject_defaults (JString ''toolB'') f p xs = xs"
    by (simp_all add: inject_defaults_def)
  have first: "process_query_step host f p ?A (initial_state q) = (None, ?st1)"
    using h
    by (subst process_query_step_success[where n = "JString ''toolA''" and a = "[]"
          and out = out1 and ts = ts1])
       (simp_all add: inj initial_state_def unhashable_def dict_set_def)
  have second: "process_query_step host f p ?A ?st1 = (None, ?st2)"
    using h
    by (subst process_query_step_success[where n = "JString ''toolA''" and a = "[]"
          and out = out2 and ts = ts2])
       (simp_all add: inj unhashable_def dict_set_def)
  have third: "process_query_step host f p ?Y ?st2 = (None, ?st3)"
    using h
    by (subst process_query_step_success[where n = "JString ''toolY''" and a = "[]"
          and out = outY and ts = tsY])
       (simp_all add: inj unhashable_def dict_set_def)
  have "calls (snd (process_query_steps host f p [?A, ?A, ?Y, ?B] (initial_state q)))
          = calls (snd (process_query_step host f p ?B ?st3))"
    using first second third process_query_steps_single[of host f p ?B ?st3] by simp
  also have "\<dots> = calls ?st3 @ [(JString ''toolB'',
        inject_defaults (JString ''toolB'') f p (resolve_placeholders (tool_outputs ?st3) ?b))]"
    by (rule process_query_step_invokes) simp_all
  also have "\<dots> = [(JString ''toolA'', []), (JString ''toolA'', []), (JString ''toolY'', []),
           (JString ''toolB'', [(''x'', JString out2), (''y'', JString outY)])]"
    by (simp add: inj resolve_value_def placeholder_toolA placeholder_toolY dict_get_def)
  finally show "calls (snd (process_query_steps host f p [?A, ?A, ?Y, ?B] (initial_state q)))
        = [(JString ''toolA'', []), (JString ''toolA'', []), (JString ''toolY'', []),
           (JString ''toolB'', [(''x'', JString out2), (''y'', JString outY)])]" .
qed

theorem latest_output_is_recorded_under_tool_name_witness:
  "dict_get (tool_outputs (snd (process_query_step
        (replay_host [Inr [''first''], Inr [''second''], Inr [''why''], Inr [''ok'']])
        ''f.txt'' ''d/f.txt'' (plan_step ''toolA'' [])
        \<lparr>tool_outputs = [(JString ''toolA'', ''first''), (JString ''toolZ'', ''zed'')],
         messages = [], calls = [(JString ''toolA'', [])]\<rparr>))) (JString ''toolA'') = Some ''second''
   \<and> dict_get (tool_outputs (snd (process_query_step
        (replay_host [Inr [''first''], Inr [''second''], Inr [''why''], Inr [''ok'']])
        ''f.txt'' ''d/f.txt'' (plan_step ''toolA'' [])
        \<lparr>tool_outputs = [(JString ''toolA'', ''first''), (JString ''toolZ'', ''zed'')],
         messages = [], calls = [(JString ''toolA'', [])]\<rparr>))) (JString ''toolZ'') = Some ''zed''
   \<and> resolve_value (tool_outputs (snd (process_query_step
        (replay_host [Inr [''first''], Inr [''second''], Inr [''why''], Inr [''ok'']])
        ''f.txt'' ''d/f.txt'' (plan_step ''toolA'' [])
        \<lparr>tool_outputs = [(JString ''toolA'', ''first''), (JString ''toolZ'', ''zed'')],
         messages = [], calls = [(JString ''toolA'', [])]\<rparr>))) (JString ''{{toolA}}'')
      = JString ''second''
   \<and> dict_get (tool_outputs (snd (process_query_steps
        (replay_host [Inr [''first''], Inr [''second''], Inr [''why''], Inr [''ok'']])
        ''f.txt'' ''d/f.txt'' [plan_step ''toolY'' []]
        \<lparr>tool_outputs = [(JString ''toolA'', ''second''), (JString ''toolZ'', ''zed'')],
         messages = [], calls = [(JString ''toolA'', []), (JString ''toolA'', [])]\<rparr>)))
        (JString ''toolA'') = Some ''second''
   \<and> calls (snd (process_query_steps
        (replay_host [Inr [''first''], Inr [''second''], Inr [''why''], Inr [''ok'']])
        ''f.txt'' ''d/f.txt''
        [plan_step ''toolA'' [], plan_step ''toolA'' [], plan_step ''toolY'' [],
         plan_step ''toolB'' [(''x'', JString ''{{toolA}}''), (''y'', JString ''{{toolY}}'')]]
        (initial_state ''q'')))
     = [(JString ''toolA'', []), (JString ''toolA'', []), (JString ''toolY'', []),
        (JString ''toolB'', [(''x'', JString ''second''), (''y'', JString ''why'')])]"
proof -
  let ?H = "replay_host [Inr [''first''], Inr [''second''], Inr [''why''], Inr [''ok'']]"
  let ?st = "\<lparr>tool_outputs = [(JString ''toolA'', ''first''), (JString ''toolZ'', ''zed'')],
              messages = [], calls = [(JString ''toolA'', [])]\<rparr>"
  let ?st' = "\<lparr>tool_outputs = [(JString ''toolA'', ''second''), (JString ''toolZ'', ''zed'')],
               messages = [\<lparr>role = ''tool'', tool_call_id = Some (JString ''toolA''),
                            content = ''second''\<rparr>],
               calls = [(JString ''toolA'', []), (JString ''toolA'', [])]\<rparr>"
  let ?mid = "\<lparr>tool_outputs = [(JString ''toolA'', ''second''), (JString ''toolZ'', ''zed'')],
               messages = [], calls = [(JString ''toolA'', []), (JString ''toolA'', [])]\<rparr>"
  let ?end = "\<lparr>tool_outputs = [(JString ''toolA'', ''second''), (JString ''toolZ'', ''zed''),
                                 (JString ''toolY'', ''why'')],
               messages = [\<lparr>role = ''tool'', tool_call_id = Some (JString ''toolY''),
                            content = ''why''\<rparr>],
               calls = [(JString ''toolA'', []), (JString ''toolA'', []), (JString ''toolY'', [])]\<rparr>"
  note T = latest_output_is_recorded_under_tool_name
    [where host = ?H and f = "''f.txt''" and p = "''d/f.txt''" and n = "JString ''toolA''"
       and ?out1.0 = "''first''" and ?ts1.0 = "[]" and ?out2.0 = "''second''" and ?ts2.0 = "[]"
       and outY = "''why''" and tsY = "[]" and q = "''q''"]
  have run: "process_query_step ?H ''f.txt'' ''d/f.txt'' (plan_step ''toolA'' []) ?st = (None, ?st')"
    by code_simp
  have name: "subscript (plan_step ''toolA'' []) ''name'' = Inr (JString ''toolA'')" by simp
  from T[where step = "plan_step ''toolA'' []" and st = ?st and st' = ?st',
         THEN conjunct1, THEN mp, OF conjI[OF run name]]
  obtain out ts where
    o: "?H (calls ?st) (JString ''toolA'') (snd (last (calls ?st'))) = Inr (out # ts)
        \<and> (\<forall>k. dict_get (tool_outputs ?st') k
              = (if k = JString ''toolA'' then Some out else dict_get (tool_outputs ?st) k))
        \<and> (\<forall>s. is_placeholder (JString s) \<and> JString (py_strip_chars ''{} '' s) = JString ''toolA''
                \<longrightarrow> resolve_value (tool_outputs ?st') (JString s) = JString out)"
    by blast
  from o have out: "out = ''second''" by (simp add: replay_host_def)
  from o have a: "dict_get (tool_outputs ?st') (JString ''toolA'') = Some out" by simp
  from o have "dict_get (tool_outputs ?st') (JString ''toolZ'')
      = dict_get (tool_outputs ?st) (JString ''toolZ'')"
    by simp
  then have z: "dict_get (tool_outputs ?st') (JString ''toolZ'') = Some ''zed''"
    by (simp add: dict_get_def)
  have ph: "is_placeholder (JString ''{{toolA}}'')
      \<and> JString (py_strip_chars ''{} '' ''{{toolA}}'') = JString ''toolA''"
    by (simp add: is_placeholder_def placeholder_toolA)
  from o ph have r: "resolve_value (tool_outputs ?st') (JString ''{{toolA}}'') = JString out"
    by blast
  have later: "process_query_steps ?H ''f.txt'' ''d/f.txt'' [plan_step ''toolY'' []] ?mid = (None, ?end)"
    by code_simp
  have others: "\<forall>s \<in> set [plan_step ''toolY'' []]. subscript s ''name'' \<noteq> Inr (JString ''toolA'')"
    by simp
  from T[where later = "[plan_step ''toolY'' []]" and st' = ?mid and st'' = ?end,
         THEN conjunct2, THEN conjunct1, THEN mp, OF conjI[OF later others]]
  have fr: "dict_get (tool_outputs ?end) (JString ''toolA'') = Some ''second''"
    by (simp add: dict_get_def)
  have hosts: "?H [] (JString ''toolA'') [] = Inr [''first'']
        \<and> ?H [(JString ''toolA'', [])] (JString ''toolA'') [] = Inr [''second'']
        \<and> ?H [(JString ''toolA'', []), (JString ''toolA'', [])] (JString ''toolY'') []
            = Inr [''why'']"
    by (simp add: replay_host_def)
  note scenario = T[THEN conjunct2, THEN conjunct2, THEN mp, OF hosts]
  from a z r out fr scenario show ?thesis
    by (simp only: run later snd_conv)
qed

section \<open>Facts and claims about the iterative client\<close>













text \<open>A text that is not JSON comes back as it is, after the removal of a fence.\<close>

lemma process_llm_response_not_json:
  "json_loads (strip_fence reply) = Inl e \<Longrightarrow>
     process_llm_response fmt session log reply = (Inr (strip_fence reply), log)"
  by (simp add: process_llm_response_def)





text \<open>
  C10. The claim: for every reply the handler returns a string, and a reply that is not
  a tool call comes back unchanged. The code raises \<open>TypeError\<close> for a reply that is a
  JSON number, \<open>true\<close>, \<open>false\<close> or \<open>null\<close>: \<open>"tool" in tool_call\<close> is applied to a value
  that is no container, and only \<open>JSONDecodeError\<close> is caught. And a fenced reply that is
  no tool call comes back without its fence, so that \<open>start\<close> takes it for the result of
  a tool.
\<close>

theorem bare_number_reply_raises_type_error:
  \<open>process_llm_response fmt session log ''5'' = (Inl TypeError, log)
   \<and> process_llm_response fmt session log ''```json\<newline>{"a": 1}\<newline>```''
       = (Inr ''{"a": 1}'', log)\<close>
proof
  have "strip_fence ''5'' = ''5''" by (simp add: strip_fence_def startswith_def)
  moreover have "json_loads ''5'' = Inr (JInt 5)" by code_simp
  ultimately show "process_llm_response fmt session log ''5'' = (Inl TypeError, log)"
    by (simp add: process_llm_response_def)
next
  have \<open>strip_fence ''```json\<newline>{"a": 1}\<newline>```'' = ''{"a": 1}''\<close> by code_simp
  moreover have \<open>json_loads ''{"a": 1}'' = Inr (JObject [(''a'', JInt 1)])\<close> by code_simp
  ultimately show \<open>process_llm_response fmt session log ''```json\<newline>{"a": 1}\<newline>```''
       = (Inr ''{"a": 1}'', log)\<close>
    by (simp add: process_llm_response_def dict_get_def)
qed

end
